theory Spec2Isabelle
  imports Complex_Main "HOL-Library.Word"
begin

section \<open>Numbers and utilities\<close>

text \<open>
  The program is JavaScript; every number in it is an IEEE double. The embedding reads
  them as mathematical reals: \<open>+\<close>, \<open>*\<close>, \<open>/\<close> and the comparisons are exact, and
  \<open>NaN\<close> and the infinities do not occur. \<open>Math.floor\<close> is \<open>floor\<close>,
  \<open>Math.abs\<close> is \<open>abs\<close>, \<open>Math.max\<close>/\<open>Math.min\<close> are \<open>max\<close>/\<open>min\<close>.

  \<^verbatim>\<open>const clamp = (v, lo, hi) => Math.max(lo, Math.min(hi, v));\<close>
  \<^verbatim>\<open>const lerp = (a,b,t) => a + (b-a)*t;\<close>
\<close>

definition clamp :: "'a::linorder \<Rightarrow> 'a \<Rightarrow> 'a \<Rightarrow> 'a" where
  "clamp x lo hi = max lo (min hi x)"

definition lerp :: "real \<Rightarrow> real \<Rightarrow> real \<Rightarrow> real" where
  "lerp p q t = p + (q - p) * t"

section \<open>Beat detection\<close>

text \<open>
  \<^verbatim>\<open>class BeatDetector\<close>: the fields that \<open>reset()\<close> creates.
\<close>

record BeatDetector =
  ema :: real
  dev :: real
  prev :: real
  lastBeat :: real
  lastThr :: real

text \<open>\<open>reset()\<close> overwrites all five fields; the constructor only calls it.\<close>

definition reset :: "BeatDetector \<Rightarrow> BeatDetector" where
  "reset this = this\<lparr>ema := 0, dev := 0, prev := 0, lastBeat := - 1000000000, lastThr := 0\<rparr>"

definition new_BeatDetector :: BeatDetector where
  "new_BeatDetector = reset \<lparr>ema = 0, dev = 0, prev = 0, lastBeat = 0, lastThr = 0\<rparr>"

text \<open>
  \<open>update(energy, tMs, sens01, minIntervalMs)\<close>, statement by statement. The result is
  the returned \<open>hit\<close> together with the detector after the call.
\<close>

definition update :: "real \<Rightarrow> real \<Rightarrow> real \<Rightarrow> real \<Rightarrow> BeatDetector \<Rightarrow> bool \<times> BeatDetector" where
  "update energy tMs sens01 minIntervalMs this0 =
    (let al = 0.06;
         this1 = this0\<lparr>ema := ema this0 + al * (energy - ema this0)\<rparr>;
         this2 = this1\<lparr>dev := dev this1 + al * (\<bar>energy - ema this1\<bar> - dev this1)\<rparr>;
         k = lerp 2.2 0.6 (clamp sens01 0 1);
         base = lerp 0.030 0.008 (clamp sens01 0 1);
         thr = ema this2 + k * (dev this2 * 1.10 + base);
         this3 = this2\<lparr>lastThr := thr\<rparr>;
         rising = (energy > prev this3);
         okTime = ((tMs - lastBeat this3) \<ge> minIntervalMs);
         gate = lerp 0.12 0.03 (clamp sens01 0 1);
         hit = (okTime \<and> rising \<and> energy > thr \<and> energy > gate);
         this4 = this3\<lparr>prev := energy\<rparr>;
         this5 = (if hit then this4\<lparr>lastBeat := tMs\<rparr> else this4)
     in (hit, this5))"

text \<open>
  A run of calls on one detector, as the loops of the self-tests make them: each sample is
  \<open>(energy, tMs, sens01, minIntervalMs)\<close>; the result lists the returned values in
  order and gives the detector after the last call.
\<close>

fun feed :: "(real \<times> real \<times> real \<times> real) list \<Rightarrow> BeatDetector \<Rightarrow> bool list \<times> BeatDetector" where
  "feed [] bd = ([], bd)"
| "feed ((energy, tMs, sens01, minIntervalMs) # rest) bd =
     (case update energy tMs sens01 minIntervalMs bd of
        (hit, bd1) \<Rightarrow> (case feed rest bd1 of (hits, bd2) \<Rightarrow> (hit # hits, bd2)))"

text \<open>The samples of a history of \<open>(energy, tMs)\<close> pairs at one sensitivity and interval.\<close>

definition samples :: "real \<Rightarrow> real \<Rightarrow> (real \<times> real) list \<Rightarrow> (real \<times> real \<times> real \<times> real) list" where
  "samples sens01 minIntervalMs hist = map (\<lambda>(energy, tMs). (energy, tMs, sens01, minIntervalMs)) hist"

text \<open>The quantities \<open>update\<close> computes from the sensitivity, and its threshold.\<close>

definition sens_k :: "real \<Rightarrow> real" where
  "sens_k sens01 = lerp 2.2 0.6 (clamp sens01 0 1)"

definition sens_base :: "real \<Rightarrow> real" where
  "sens_base sens01 = lerp 0.030 0.008 (clamp sens01 0 1)"

definition sens_gate :: "real \<Rightarrow> real" where
  "sens_gate sens01 = lerp 0.12 0.03 (clamp sens01 0 1)"

section \<open>Program state\<close>

text \<open>
  Colours are \<open>{r, g, b}\<close> objects whose channels \<open>rgb()\<close> has rounded and clamped to
  0..255. A canvas style is the string \<open>rgba(r,g,b,a)\<close>; the model keeps its four numbers.
\<close>

record color =
  cr :: int
  cg :: int
  cb :: int

datatype style = Rgba int int int real

definition rgb :: "real \<Rightarrow> real \<Rightarrow> real \<Rightarrow> color" where
  "rgb r g b = \<lparr>cr = clamp (round r) 0 255, cg = clamp (round g) 0 255, cb = clamp (round b) 0 255\<rparr>"

definition rgba :: "color \<Rightarrow> real \<Rightarrow> style" where
  "rgba col al = Rgba (cr col) (cg col) (cb col) (clamp al 0 1)"

text \<open>
  The 2D drawing context is an object of the browser. The model records every property
  assignment and method call the code makes on \<open>ctx\<close>, in order, in \<open>calls\<close>. The four
  properties that the code also reads back (\<open>lineCap\<close>, \<open>lineJoin\<close>, the dash list and
  \<open>lineDashOffset\<close>) are kept as fields, with the stack that \<open>save()\<close> and
  \<open>restore()\<close> use for them.
\<close>

datatype ctxcall =
    SetFillStyle style
  | SetStrokeStyle style
  | SetLineWidth real
  | SetLineCap string
  | SetLineJoin string
  | SetLineDash "real list"
  | SetLineDashOffset real
  | BeginPath
  | ClosePath
  | MoveTo real real
  | LineTo real real
  | Arc real real real real real
  | Rect real real real real
  | Fill
  | Stroke
  | FillRect real real real real
  | StrokeRect real real real real
  | SetTransform real real real real real real
  | Translate real real
  | Rotate real
  | Save
  | Restore

record canvas =
  lineCap :: string
  lineJoin :: string
  lineDash :: "real list"
  lineDashOffset :: real
  saved :: "(string \<times> string \<times> real list \<times> real) list"
  calls :: "ctxcall list"

fun perform :: "ctxcall \<Rightarrow> canvas \<Rightarrow> canvas" where
  "perform (SetLineCap x) cv = cv\<lparr>lineCap := x, calls := calls cv @ [SetLineCap x]\<rparr>"
| "perform (SetLineJoin x) cv = cv\<lparr>lineJoin := x, calls := calls cv @ [SetLineJoin x]\<rparr>"
| "perform (SetLineDash xs) cv = cv\<lparr>lineDash := xs, calls := calls cv @ [SetLineDash xs]\<rparr>"
| "perform (SetLineDashOffset x) cv = cv\<lparr>lineDashOffset := x, calls := calls cv @ [SetLineDashOffset x]\<rparr>"
| "perform Save cv =
     cv\<lparr>saved := (lineCap cv, lineJoin cv, lineDash cv, lineDashOffset cv) # saved cv,
        calls := calls cv @ [Save]\<rparr>"
| "perform Restore cv =
     (case saved cv of
        [] \<Rightarrow> cv\<lparr>calls := calls cv @ [Restore]\<rparr>
      | (cap, join, dash, off) # rest \<Rightarrow>
          cv\<lparr>lineCap := cap, lineJoin := join, lineDash := dash, lineDashOffset := off,
             saved := rest, calls := calls cv @ [Restore]\<rparr>)"
| "perform other cv = cv\<lparr>calls := calls cv @ [other]\<rparr>"

text \<open>\<^verbatim>\<open>class Kreis\<close>: one bouncing spotlight.\<close>

record Kreis =
  posX :: real
  posY :: real
  spdX :: real
  spdY :: real

text \<open>
  The script's \<open>let\<close> variables that the modelled functions read or write, under their
  own names where those are usable as constants: \<open>a\<close>, \<open>b_\<close>, \<open>c\<close>, \<open>d\<close>, \<open>v\<close>,
  \<open>m\<close> are \<open>var_a\<close> ... \<open>var_m\<close>, and \<open>_sqSpin\<close>, \<open>_triSpin\<close> are \<open>sqSpin\<close>,
  \<open>triSpin\<close>. \<open>ranX\<close> and \<open>ranY\<close> are \<open>Int32Array(1000)\<close>: lists of 32-bit words,
  written through \<open>word_of_int\<close> and read through \<open>sint\<close>.

  Two things come from outside the script. \<open>Math.random()\<close> is the stream \<open>rnd\<close>:
  the n-th call returns \<open>rnd n\<close>, and \<open>rndCount\<close> counts the calls made.
  \<open>performance.now()\<close> is the stream \<open>clock\<close> with its counter \<open>clockCount\<close>
  in the same way.
\<close>

record state =
  presetNumber :: int
  presetSpeed :: real
  presetSize :: real
  presetBrightness :: real
  multiColor :: bool
  presetColor :: color
  multiColorClr :: color
  visualW :: real
  H :: real
  DPR :: real
  var_a :: real
  var_b :: real
  var_c :: real
  var_d :: real
  var_v :: real
  var_m :: real
  onoff :: bool
  timeRand :: real
  ranX :: "32 word list"
  ranY :: "32 word list"
  sqSpin :: real
  triSpin :: real
  spotlight :: "Kreis list"
  mouseXw :: real
  mouseYw :: real
  transitionSpeed :: real
  motionPhase :: real
  motionFromMode :: string
  motionToMode :: string
  motionBlendStart :: real
  motionBlending :: bool
  ctx :: canvas
  rnd :: "nat \<Rightarrow> real"
  rndCount :: nat
  clock :: "nat \<Rightarrow> real"
  clockCount :: nat

definition Math_random :: "state \<Rightarrow> real \<times> state" where
  "Math_random s = (rnd s (rndCount s), s\<lparr>rndCount := rndCount s + 1\<rparr>)"

definition nowMs :: "state \<Rightarrow> real \<times> state" where
  "nowMs s = (clock s (clockCount s), s\<lparr>clockCount := clockCount s + 1\<rparr>)"

text \<open>
  JavaScript's \<open>%\<close> on integers takes the sign of the dividend. Loops:
  \<open>for (let i=0; i<n; i++)\<close> with a whole number \<open>n\<close> is \<open>for_count n\<close>;
  \<open>for (let f=0; f<x; f++)\<close> with a real bound runs for the naturals below \<open>x\<close>,
  which are those below \<open>\<lceil>x\<rceil>\<close>; \<open>for (let r=lo; r<=hi; r++)\<close> is \<open>for_range lo hi\<close>.
\<close>

definition jsrem :: "int \<Rightarrow> int \<Rightarrow> int" where
  "jsrem x y = sgn x * (\<bar>x\<bar> mod \<bar>y\<bar>)"

definition for_count :: "nat \<Rightarrow> (nat \<Rightarrow> 's \<Rightarrow> 's) \<Rightarrow> 's \<Rightarrow> 's" where
  "for_count n body s = fold body [0..<n] s"

definition for_below :: "real \<Rightarrow> (nat \<Rightarrow> 's \<Rightarrow> 's) \<Rightarrow> 's \<Rightarrow> 's" where
  "for_below x body s = fold body [0..<nat \<lceil>x\<rceil>] s"

definition for_range :: "int \<Rightarrow> int \<Rightarrow> (int \<Rightarrow> 's \<Rightarrow> 's) \<Rightarrow> 's \<Rightarrow> 's" where
  "for_range lo hi body s = fold body [lo..hi] s"

section \<open>Rendering helpers\<close>

definition ctx_call :: "ctxcall \<Rightarrow> state \<Rightarrow> state" where
  "ctx_call c s = s\<lparr>ctx := perform c (ctx s)\<rparr>"

definition ctx_calls :: "ctxcall list \<Rightarrow> state \<Rightarrow> state" where
  "ctx_calls cs s = fold ctx_call cs s"

definition altColor :: "state \<Rightarrow> int \<Rightarrow> color" where
  "altColor s i =
     (if \<not> multiColor s then presetColor s
      else if jsrem i 2 = 0 then presetColor s else multiColorClr s)"

definition setFillColor :: "color \<Rightarrow> state \<Rightarrow> state" where
  "setFillColor col s = ctx_call (SetFillStyle (rgba col (clamp (presetBrightness s / 100) 0 1))) s"

definition setStrokeColor :: "color \<Rightarrow> state \<Rightarrow> state" where
  "setStrokeColor col s = ctx_call (SetStrokeStyle (rgba col (clamp (presetBrightness s / 100) 0 1))) s"

definition worldToCanvasX :: "state \<Rightarrow> real \<Rightarrow> real" where
  "worldToCanvasX s x = x * DPR s"

definition worldToCanvasY :: "state \<Rightarrow> real \<Rightarrow> real" where
  "worldToCanvasY s y = y * DPR s"

definition fillCircleWorld :: "real \<Rightarrow> real \<Rightarrow> real \<Rightarrow> state \<Rightarrow> state" where
  "fillCircleWorld x y r s =
     ctx_calls [BeginPath, Arc (worldToCanvasX s x) (worldToCanvasY s y) (r * DPR s) 0 (pi * 2), Fill] s"

definition strokeLineWorld :: "real \<Rightarrow> real \<Rightarrow> real \<Rightarrow> real \<Rightarrow> state \<Rightarrow> state" where
  "strokeLineWorld x1 y1 x2 y2 s =
     ctx_calls [BeginPath, MoveTo (worldToCanvasX s x1) (worldToCanvasY s y1),
                LineTo (worldToCanvasX s x2) (worldToCanvasY s y2), Stroke] s"

definition strokeRectCenteredWorld :: "real \<Rightarrow> real \<Rightarrow> real \<Rightarrow> real \<Rightarrow> state \<Rightarrow> state" where
  "strokeRectCenteredWorld x y w h s =
     ctx_call (StrokeRect (worldToCanvasX s (x - w / 2)) (worldToCanvasY s (y - h / 2)) (w * DPR s) (h * DPR s)) s"

definition arcWorld :: "real \<Rightarrow> real \<Rightarrow> real \<Rightarrow> real \<Rightarrow> real \<Rightarrow> state \<Rightarrow> state" where
  "arcWorld x y diam start end' s =
     ctx_calls [BeginPath, Arc (worldToCanvasX s x) (worldToCanvasY s y) ((diam / 2) * DPR s) start end', Stroke] s"

text \<open>
  \<open>fillCirclesBatch(circles)\<close>: each circle is \<open>{x, y, r}\<close>. \<open>fillTinyDotsBatch(points, r)\<close>:
  \<open>points\<close> is the flat array \<open>[x0, y0, x1, y1, ...]\<close>, read two entries at a time; the
  callers push the entries in pairs.
\<close>

definition fillCirclesBatch :: "(real \<times> real \<times> real) list \<Rightarrow> state \<Rightarrow> state" where
  "fillCirclesBatch circles s =
     (if circles = [] then s
      else
        (let s = ctx_call BeginPath s;
             s = fold (\<lambda>(px, py, pr) s.
                        (let x = worldToCanvasX s px;
                             y = worldToCanvasY s py;
                             r = pr * DPR s
                         in ctx_calls [MoveTo (x + r) y, Arc x y r 0 (pi * 2)] s)) circles s
         in ctx_call Fill s))"

fun point_pairs :: "real list \<Rightarrow> (real \<times> real) list" where
  "point_pairs (x # y # rest) = (x, y) # point_pairs rest"
| "point_pairs other = []"

definition fillTinyDotsBatch :: "real list \<Rightarrow> real \<Rightarrow> state \<Rightarrow> state" where
  "fillTinyDotsBatch points r s =
     (let rr = max 1 (r * DPR s);
          half = rr * 0.5
      in fold (\<lambda>(px, py) s.
                 (let x = px * DPR s;
                      y = py * DPR s
                  in ctx_call (FillRect (x - half) (y - half) rr rr) s)) (point_pairs points) s)"

text \<open>\<open>Kreis.step()\<close>: returns \<open>{x, y, r}\<close> and the spotlight after the step.\<close>

definition step :: "state \<Rightarrow> Kreis \<Rightarrow> (real \<times> real \<times> real) \<times> Kreis" where
  "step s this =
     (let ballDiam = real_of_int \<lfloor>lerp 300 40 (clamp ((presetSize s + 1) / 100) 0 1)\<rfloor>;
          ballR = ballDiam / 2;
          x = posX this; y = posY this;
          sx = spdX this; sy = spdY this;
          w = visualW s / DPR s;
          h = H s / DPR s;
          (x, sx) = (if x \<le> ballR then (ballR, - sx)
                     else if x \<ge> w - ballR then (w - ballR, - sx) else (x, sx));
          (y, sy) = (if y \<le> ballR then (ballR, - sy)
                     else if y \<ge> h - ballR then (h - ballR, - sy) else (y, sy));
          moveScale = lerp 0 1 (clamp ((presetSpeed s + 1) / 100) 0 1);
          x = x + moveScale * sx;
          y = y + moveScale * sy
      in ((x, y, ballR), this\<lparr>posX := x, posY := y, spdX := sx, spdY := sy\<rparr>))"

text \<open>
  \<open>initDiscoball(rng = Math.random)\<close>, always called without an argument: 1000 pairs of
  coordinates, two calls of \<open>Math.random()\<close> each.
\<close>

definition initDiscoball :: "state \<Rightarrow> state" where
  "initDiscoball s0 =
     for_count 1000 (\<lambda>i s.
       (let (r1, s) = Math_random s;
            s = s\<lparr>ranX := (ranX s)[i := word_of_int \<lfloor>(r1 * 2 - 1) * (0.71 * visualW s / DPR s)\<rfloor>]\<rparr>;
            (r2, s) = Math_random s
        in s\<lparr>ranY := (ranY s)[i := word_of_int \<lfloor>(r2 * 2 - 1) * (0.71 * visualW s / DPR s)\<rfloor>]\<rparr>)) s0"

section \<open>The presets\<close>

text \<open>
  \<open>drawPreset(idx, feats, motion)\<close> computes \<open>cx\<close>, \<open>cy\<close>, \<open>size\<close> (here \<open>size'\<close>), \<open>tx\<close>, \<open>ty\<close>,
  returns at once when \<open>onoff\<close> is false, and then switches on \<open>idx\<close>. Each \<open>case\<close> of
  the switch is one definition below, taking those five locals as arguments.
\<close>

text \<open>0: Ring (sin).\<close>

definition case0 :: "real \<Rightarrow> real \<Rightarrow> real \<Rightarrow> real \<Rightarrow> real \<Rightarrow> state \<Rightarrow> state" where
  "case0 cx cy size' tx ty s0 =
     for_count 18 (\<lambda>i s.
       (let s = setFillColor (altColor s (int i)) s;
            r = size' * (H s / DPR s) / 240;
            x = cx + tx + r * sin (real i * var_v s);
            y = cy + ty + r * cos (real i * var_v s);
            s = fillCircleWorld x y (0.4 * size') s
        in s\<lparr>var_v := var_v s + presetSpeed s / 360000\<rparr>)) s0"

text \<open>1: Ring (rot). \<open>a2\<close> is the angle of dot \<open>i\<close>.\<close>

definition ring_rot_angle :: "nat \<Rightarrow> state \<Rightarrow> real" where
  "ring_rot_angle i s = real i * pi / 9 + var_v s"

definition case1 :: "real \<Rightarrow> real \<Rightarrow> real \<Rightarrow> real \<Rightarrow> real \<Rightarrow> state \<Rightarrow> state" where
  "case1 cx cy size' tx ty s0 =
     (let s1 = s0\<lparr>var_v := var_v s0 + presetSpeed s0 / 2000\<rparr>
      in for_count 18 (\<lambda>i s.
           (let s = setFillColor (altColor s (int i)) s;
                r = size' * (H s / DPR s) / 240;
                a2 = ring_rot_angle i s;
                x = cx + tx + r * sin a2;
                y = cy + ty + r * cos a2
            in fillCircleWorld x y (0.4 * size') s)) s1)"

text \<open>2: 3 Rings.\<close>

definition case2 :: "real \<Rightarrow> real \<Rightarrow> real \<Rightarrow> real \<Rightarrow> real \<Rightarrow> state \<Rightarrow> state" where
  "case2 cx cy size' tx ty s0 =
     (let s1 = s0\<lparr>var_v := var_v s0 + presetSpeed s0 / 3000\<rparr>
      in for_count 3 (\<lambda>ring s.
           (let rr = (if ring = 0 then 1.0 else (if ring = 1 then 0.35 else 0.6));
                dot = (if ring = 0 then 0.2 else (if ring = 1 then 0.08 else 0.12));
                rot = (if ring = 2 then - 2 * var_v s else var_v s)
            in for_count 18 (\<lambda>i s.
                 (let s = setFillColor (altColor s (int i + int ring)) s;
                      r = rr * (size' * (H s / DPR s) / 240);
                      a2 = real i * pi / 9 + rot;
                      x = cx + tx + r * sin a2;
                      y = cy + ty + r * cos a2
                  in fillCircleWorld x y (dot * (size' + 10)) s)) s)) s1)"

text \<open>
  The interval of the presets with random positions:
  \<^verbatim>\<open>(presetSpeed===0) ? 1e9 : (1000 - k*presetSpeed)\<close>, with \<open>k\<close> = 10 in presets 3 and 4
  and 9.5 in presets 9 and 10.
\<close>

definition rand_interval :: "real \<Rightarrow> real \<Rightarrow> real" where
  "rand_interval k speed = (if speed = 0 then 1000000000 else 1000 - k * speed)"

text \<open>
  3: Rand Lines. The endpoints \<open>a\<close>, \<open>b_\<close>, \<open>c\<close>, \<open>d\<close> are drawn first and refreshed
  afterwards when the interval has elapsed.
\<close>

definition case3 :: "real \<Rightarrow> real \<Rightarrow> real \<Rightarrow> real \<Rightarrow> real \<Rightarrow> state \<Rightarrow> state" where
  "case3 cx cy size' tx ty s0 =
     (let w = visualW s0 / DPR s0;
          h = H s0 / DPR s0;
          s = ctx_call (SetLineWidth ((1.4 * presetSize s0 + 10) * DPR s0)) s0;
          s = ctx_call (SetLineCap ''round'') s;
          a = var_a s; b = var_b s; c = var_c s; d = var_d s;
          s = (if multiColor s then
                 (let s = setStrokeColor (presetColor s) s;
                      s = strokeLineWorld (a + tx) (b + ty) (a + (c - a) / 3 + tx) (b + (d - b) / 3 + ty) s;
                      s = strokeLineWorld (a + 2 * (c - a) / 3 + tx) (b + 2 * (d - b) / 3 + ty) (c + tx) (d + ty) s;
                      s = setStrokeColor (multiColorClr s) s
                  in strokeLineWorld (a + (c - a) / 3 + tx) (b + (d - b) / 3 + ty)
                       (a + 2 * (c - a) / 3 + tx) (b + 2 * (d - b) / 3 + ty) s)
               else
                 (let s = setStrokeColor (presetColor s) s
                  in strokeLineWorld (a + tx) (b + ty) (c + tx) (d + ty) s));
          interval = rand_interval 10 (presetSpeed s);
          (t1, s) = nowMs s
      in if t1 - timeRand s \<ge> interval then
           (let (t2, s) = nowMs s;
                s = s\<lparr>timeRand := t2\<rparr>;
                (r1, s) = Math_random s;
                s = s\<lparr>var_a := real_of_int \<lfloor>50 + r1 * (w - 100)\<rfloor>\<rparr>;
                (r2, s) = Math_random s;
                s = s\<lparr>var_b := real_of_int \<lfloor>50 + r2 * (h - 100)\<rfloor>\<rparr>;
                (r3, s) = Math_random s;
                s = s\<lparr>var_c := real_of_int \<lfloor>50 + r3 * (w - 100)\<rfloor>\<rparr>;
                (r4, s) = Math_random s
            in s\<lparr>var_d := real_of_int \<lfloor>50 + r4 * (h - 100)\<rfloor>\<rparr>)
         else s)"

text \<open>4: Rand Ring.\<close>

definition case4 :: "real \<Rightarrow> real \<Rightarrow> real \<Rightarrow> real \<Rightarrow> real \<Rightarrow> state \<Rightarrow> state" where
  "case4 cx cy size' tx ty s0 =
     (let w = visualW s0 / DPR s0;
          h = H s0 / DPR s0;
          s = ctx_call (SetLineWidth (lerp 5 60 (presetSize s0 / 100) * DPR s0)) s0;
          s = ctx_call (SetFillStyle (Rgba 0 0 0 0)) s;
          s = (if multiColor s then
                 for_count 8 (\<lambda>l s.
                   (let s = setStrokeColor (if jsrem (int l) 2 = 0 then presetColor s else multiColorClr s) s;
                        start = real l * pi / 4 + var_c s;
                        end' = (real l + 1) * pi / 4 + var_c s
                    in arcWorld (var_a s + tx) (var_b s + ty) 500 start end' s)) s
               else
                 (let s = setStrokeColor (presetColor s) s
                  in ctx_calls [BeginPath,
                       Arc (worldToCanvasX s (var_a s + tx)) (worldToCanvasY s (var_b s + ty))
                           (250 * DPR s) 0 (pi * 2),
                       Stroke] s));
          interval = rand_interval 10 (presetSpeed s);
          (t1, s) = nowMs s
      in if t1 - timeRand s \<ge> interval then
           (let (t2, s) = nowMs s;
                s = s\<lparr>timeRand := t2\<rparr>;
                (r1, s) = Math_random s;
                s = s\<lparr>var_a := real_of_int \<lfloor>150 + r1 * (w - 300)\<rfloor>\<rparr>;
                (r2, s) = Math_random s;
                s = s\<lparr>var_b := real_of_int \<lfloor>150 + r2 * (h - 300)\<rfloor>\<rparr>;
                (r3, s) = Math_random s
            in s\<lparr>var_c := r3 * pi * 2\<rparr>)
         else s)"

text \<open>5: Sinus.\<close>

definition case5 :: "real \<Rightarrow> real \<Rightarrow> real \<Rightarrow> real \<Rightarrow> real \<Rightarrow> state \<Rightarrow> state" where
  "case5 cx cy size' tx ty s0 =
     (let w = visualW s0 / DPR s0
      in for_below (w / 16) (\<lambda>f s.
           (let col = (if multiColor s
                       then (if jsrem (int f) 20 \<le> 10 then presetColor s else multiColorClr s)
                       else presetColor s);
                s = setFillColor col s;
                x = 16 * real f + tx;
                y = cy + ty + 4.5 * presetSize s * sin (var_v s - real f / 15);
                s = fillCircleWorld x y 35 s
            in s\<lparr>var_v := var_v s + presetSpeed s / 90000\<rparr>)) s0)"

text \<open>6: Sin Blocks.\<close>

definition case6 :: "real \<Rightarrow> real \<Rightarrow> real \<Rightarrow> real \<Rightarrow> real \<Rightarrow> state \<Rightarrow> state" where
  "case6 cx cy size' tx ty s0 =
     (let w = visualW s0 / DPR s0
      in for_below (w / 90) (\<lambda>f s.
           (let col = (if multiColor s
                       then (if jsrem (int f) 2 = 0 then presetColor s else multiColorClr s)
                       else presetColor s);
                s = setFillColor col s;
                x = 100 * real f + tx;
                y1 = 0.45 * (H s / DPR s) + ty + 100 * sin (var_v s - real f / 1)
                       + presetSize s * (H s / DPR s) * 0.005;
                y2 = 0.45 * (H s / DPR s) + ty - 100 * sin (var_v s - real f / 1)
                       - presetSize s * (H s / DPR s) * 0.005;
                s = ctx_call (FillRect (worldToCanvasX s x) (worldToCanvasY s y1)
                                (60 * DPR s) ((H s / DPR s / 10) * DPR s)) s;
                s = ctx_call (FillRect (worldToCanvasX s x) (worldToCanvasY s y2)
                                (60 * DPR s) ((H s / DPR s / 10) * DPR s)) s
            in s\<lparr>var_v := var_v s + presetSpeed s / 15000\<rparr>)) s0)"

text \<open>
  The segmented cross of presets 7 and 13: ten coloured pieces of each arm, centred at
  \<open>(x, y)\<close>.
\<close>

definition cross_multi :: "real \<Rightarrow> real \<Rightarrow> state \<Rightarrow> state" where
  "cross_multi x y s0 =
     for_count 10 (\<lambda>i s.
       (let s = setStrokeColor (altColor s (int i)) s;
            y1 = (real i - 5) * (H s / DPR s) / 5;
            y2 = (real i - 4) * (H s / DPR s) / 5;
            s = strokeLineWorld x (y + y1) x (y + y2) s;
            x1 = (real i - 5) * (visualW s / DPR s) / 5;
            x2 = (real i - 4) * (visualW s / DPR s) / 5
        in strokeLineWorld (x + x1) y (x + x2) y s)) s0"

definition cross_single :: "real \<Rightarrow> real \<Rightarrow> state \<Rightarrow> state" where
  "cross_single x y s0 =
     (let s = setStrokeColor (presetColor s0) s0;
          s = strokeLineWorld x (y - (H s / DPR s)) x (y + (H s / DPR s)) s
      in strokeLineWorld (x - (visualW s / DPR s)) y (x + (visualW s / DPR s)) y s)"

text \<open>7: Cross.\<close>

definition case7 :: "real \<Rightarrow> real \<Rightarrow> real \<Rightarrow> real \<Rightarrow> real \<Rightarrow> state \<Rightarrow> state" where
  "case7 cx cy size' tx ty s0 =
     (let s = s0\<lparr>var_v := var_v s0 + presetSpeed s0 / 1000\<rparr>;
          s = ctx_call (SetLineWidth ((1.5 * presetSize s) * DPR s)) s
      in if multiColor s then cross_multi (cx + tx) (cy + ty) s
         else cross_single (cx + tx) (cy + ty) s)"

text \<open>8: Discoball. \<open>ptsA\<close> and \<open>ptsB\<close> are flat arrays of coordinates.\<close>

definition case8 :: "real \<Rightarrow> real \<Rightarrow> real \<Rightarrow> real \<Rightarrow> real \<Rightarrow> state \<Rightarrow> state" where
  "case8 cx cy size' tx ty s0 =
     (let s = s0\<lparr>var_v := var_v s0 + presetSpeed s0 / 5000\<rparr>;
          ang = var_v s;
          cs = cos ang; sn = sin ang;
          r = max 1 (presetSize s / 8);
          (ptsA, ptsB) =
            for_count 1000 (\<lambda>i (ptsA, ptsB).
              (let x = real_of_int (sint (ranX s ! i));
                   y = real_of_int (sint (ranY s ! i));
                   rx = x * cs - y * sn;
                   ry = x * sn + y * cs;
                   px = cx + tx + rx;
                   py = cy + ty + ry
               in if multiColor s \<and> i > 500 then (ptsA, ptsB @ [px, py])
                  else (ptsA @ [px, py], ptsB))) ([], []);
          s = setFillColor (presetColor s) s;
          s = (if r \<le> 2.2 then fillTinyDotsBatch ptsA r s
               else fillCirclesBatch (map (\<lambda>(x, y). (x, y, r)) (point_pairs ptsA)) s)
      in if multiColor s then
           (let s = setFillColor (multiColorClr s) s
            in if r \<le> 2.2 then fillTinyDotsBatch ptsB r s
               else fillCirclesBatch (map (\<lambda>(x, y). (x, y, r)) (point_pairs ptsB)) s)
         else s)"

text \<open>
  9 and 10: Rand Circles and Rand Rings. Both end with the same refresh of the first
  \<open>count\<close> entries of \<open>ranX\<close> and \<open>ranY\<close>.
\<close>

definition refresh_ran :: "real \<Rightarrow> real \<Rightarrow> int \<Rightarrow> state \<Rightarrow> state" where
  "refresh_ran w h count s0 =
     (let interval = rand_interval 9.5 (presetSpeed s0);
          (t1, s) = nowMs s0
      in if t1 - timeRand s \<ge> interval then
           (let (t2, s) = nowMs s;
                s = s\<lparr>timeRand := t2\<rparr>
            in for_count (nat count) (\<lambda>i s.
                 (let rad = (300 - 2.7 * presetSize s) / 2;
                      (r1, s) = Math_random s;
                      s = s\<lparr>ranX := (ranX s)[i := word_of_int \<lfloor>rad + r1 * (w - 2 * rad)\<rfloor>]\<rparr>;
                      (r2, s) = Math_random s
                  in s\<lparr>ranY := (ranY s)[i := word_of_int \<lfloor>rad + r2 * (h - 2 * rad)\<rfloor>]\<rparr>)) s)
         else s)"

definition case9 :: "real \<Rightarrow> real \<Rightarrow> real \<Rightarrow> real \<Rightarrow> real \<Rightarrow> state \<Rightarrow> state" where
  "case9 cx cy size' tx ty s0 =
     (let w = visualW s0 / DPR s0;
          h = H s0 / DPR s0;
          count = \<lfloor>(presetSize s0 + 10) / 10\<rfloor>;
          s = for_count (nat count) (\<lambda>i s.
                (let s = (if multiColor s \<and> real i > presetSize s / 20
                          then setFillColor (multiColorClr s) s
                          else setFillColor (presetColor s) s)
                 in ctx_calls [BeginPath,
                      Arc (worldToCanvasX s (real_of_int (sint (ranX s ! i)) + tx))
                          (worldToCanvasY s (real_of_int (sint (ranY s ! i)) + ty))
                          ((150 - 1.35 * presetSize s) * DPR s) 0 (pi * 2),
                      Fill] s)) s0
      in refresh_ran w h count s)"

definition case10 :: "real \<Rightarrow> real \<Rightarrow> real \<Rightarrow> real \<Rightarrow> real \<Rightarrow> state \<Rightarrow> state" where
  "case10 cx cy size' tx ty s0 =
     (let w = visualW s0 / DPR s0;
          h = H s0 / DPR s0;
          count = \<lfloor>(presetSize s0 + 10) / 10\<rfloor>;
          s = ctx_call (SetLineWidth ((60 - 0.5 * presetSize s0) * DPR s0)) s0;
          s = ctx_call (SetFillStyle (Rgba 0 0 0 0)) s;
          s = for_count (nat count) (\<lambda>i s.
                (let s = (if multiColor s \<and> real i > presetSize s / 20
                          then setStrokeColor (multiColorClr s) s
                          else setStrokeColor (presetColor s) s)
                 in ctx_calls [BeginPath,
                      Arc (worldToCanvasX s (real_of_int (sint (ranX s ! i)) + tx))
                          (worldToCanvasY s (real_of_int (sint (ranY s ! i)) + ty))
                          ((250 - 2 * presetSize s) * DPR s) 0 (pi * 2),
                      Stroke] s)) s
      in refresh_ran w h count s)"

text \<open>11: Scan |, 12: Scan -, 13: 2 Scan.\<close>

definition case11 :: "real \<Rightarrow> real \<Rightarrow> real \<Rightarrow> real \<Rightarrow> real \<Rightarrow> state \<Rightarrow> state" where
  "case11 cx cy size' tx ty s0 =
     (let s = s0\<lparr>var_v := var_v s0 + presetSpeed s0 / 1000\<rparr>;
          s = ctx_call (SetLineWidth ((1.5 * presetSize s) * DPR s)) s;
          x = (cx / 1.2) * sin (var_v s) + cx + tx;
          h = H s / DPR s
      in if multiColor s then
           (let s = setStrokeColor (presetColor s) s;
                s = strokeLineWorld x 0 x (h / 3) s;
                s = strokeLineWorld x (2 * h / 3) x h s;
                s = setStrokeColor (multiColorClr s) s
            in strokeLineWorld x (h / 3) x (2 * h / 3) s)
         else
           (let s = setStrokeColor (presetColor s) s
            in strokeLineWorld x 0 x h s))"

definition case12 :: "real \<Rightarrow> real \<Rightarrow> real \<Rightarrow> real \<Rightarrow> real \<Rightarrow> state \<Rightarrow> state" where
  "case12 cx cy size' tx ty s0 =
     (let s = s0\<lparr>var_v := var_v s0 + presetSpeed s0 / 1000\<rparr>;
          s = ctx_call (SetLineWidth ((1.5 * presetSize s) * DPR s)) s;
          y = (cy / 1.2) * sin (var_v s) + cy + ty;
          w = visualW s / DPR s
      in if multiColor s then
           (let s = setStrokeColor (presetColor s) s;
                s = strokeLineWorld 0 y (w / 3) y s;
                s = strokeLineWorld (2 * w / 3) y w y s;
                s = setStrokeColor (multiColorClr s) s
            in strokeLineWorld (w / 3) y (2 * w / 3) y s)
         else
           (let s = setStrokeColor (presetColor s) s
            in strokeLineWorld 0 y w y s))"

definition case13 :: "real \<Rightarrow> real \<Rightarrow> real \<Rightarrow> real \<Rightarrow> real \<Rightarrow> state \<Rightarrow> state" where
  "case13 cx cy size' tx ty s0 =
     (let s = s0\<lparr>var_v := var_v s0 + presetSpeed s0 / 1000\<rparr>;
          s = ctx_call (SetLineWidth ((1.5 * presetSize s) * DPR s)) s;
          x = (cx / 1.2) * sin (var_v s * 1.2) + cx + tx;
          y = (cy / 1.2) * sin (var_v s * 0.8) + cy + ty
      in if multiColor s then cross_multi x y s else cross_single x y s)"

text \<open>
  14: PingPong. Every ball drawn this frame takes one \<open>step()\<close>; \<open>i & 1\<close> is the parity
  of \<open>i\<close>.
\<close>

definition case14 :: "real \<Rightarrow> real \<Rightarrow> real \<Rightarrow> real \<Rightarrow> real \<Rightarrow> state \<Rightarrow> state" where
  "case14 cx cy size' tx ty s0 =
     (let maxBalls = 12;
          count = clamp \<lfloor>lerp 4 (real_of_int maxBalls) (clamp (presetSize s0 / 100) 0 1)\<rfloor> 4 maxBalls;
          (circlesA, circlesB, s) =
            for_count (nat count) (\<lambda>i (circlesA, circlesB, s).
              (let k = i mod length (spotlight s);
                   ((x, y, r), ball) = step s (spotlight s ! k);
                   s = s\<lparr>spotlight := (spotlight s)[k := ball]\<rparr>;
                   cxp = x + tx;
                   cyp = y + ty;
                   rr = r
               in if multiColor s \<and> odd i then (circlesA, circlesB @ [(cxp, cyp, rr)], s)
                  else (circlesA @ [(cxp, cyp, rr)], circlesB, s))) ([], [], s0);
          s = setFillColor (presetColor s) s;
          s = fillCirclesBatch circlesA s
      in if multiColor s then
           (let s = setFillColor (multiColorClr s) s
            in fillCirclesBatch circlesB s)
         else s)"

text \<open>15: Mouse Spot.\<close>

definition case15 :: "real \<Rightarrow> real \<Rightarrow> real \<Rightarrow> real \<Rightarrow> real \<Rightarrow> state \<Rightarrow> state" where
  "case15 cx cy size' tx ty s0 =
     (let r = 3 * presetSize s0;
          s = setFillColor (presetColor s0) s0;
          s = fillCircleWorld (mouseXw s + tx) (mouseYw s + ty) r s
      in if multiColor s then
           (let s = setFillColor (multiColorClr s) s
            in fillCircleWorld (mouseXw s + tx) (mouseYw s + ty) (r * 0.55) s)
         else s)"

text \<open>The stroke colour of bar \<open>r\<close> in the bar presets 16 to 19 and 22.\<close>

definition bar_color :: "int \<Rightarrow> state \<Rightarrow> state" where
  "bar_color r s =
     (if multiColor s then setStrokeColor (if jsrem r 2 = 0 then presetColor s else multiColorClr s) s
      else setStrokeColor (presetColor s) s)"

text \<open>16: Multi |, 17: Multi -. The scroll position \<open>m\<close> advances after the bars are drawn.\<close>

definition case16 :: "real \<Rightarrow> real \<Rightarrow> real \<Rightarrow> real \<Rightarrow> real \<Rightarrow> state \<Rightarrow> state" where
  "case16 cx cy size' tx ty s0 =
     (let s = ctx_call (SetLineWidth (presetSize s0 * DPR s0)) s0;
          w = visualW s / DPR s;
          s = for_range (- 4) 4 (\<lambda>r s.
                (let s = bar_color r s;
                     x = (var_m s + real_of_int r * w / 4) + tx
                 in strokeLineWorld x 0 x (H s / DPR s) s)) s;
          s = s\<lparr>var_m := var_m s + presetSpeed s / 3\<rparr>
      in if var_m s \<ge> w - 50 then s\<lparr>var_m := - 50\<rparr> else s)"

definition case17 :: "real \<Rightarrow> real \<Rightarrow> real \<Rightarrow> real \<Rightarrow> real \<Rightarrow> state \<Rightarrow> state" where
  "case17 cx cy size' tx ty s0 =
     (let s = ctx_call (SetLineWidth (presetSize s0 * DPR s0)) s0;
          h = H s / DPR s;
          s = for_range (- 4) 4 (\<lambda>r s.
                (let s = bar_color r s;
                     y = (var_m s + real_of_int r * h / 4) + ty
                 in strokeLineWorld 0 y (visualW s / DPR s) y s)) s;
          s = s\<lparr>var_m := var_m s + presetSpeed s / 3\<rparr>
      in if var_m s \<ge> h - 50 then s\<lparr>var_m := - 50\<rparr> else s)"

text \<open>18: Sin Multi |, 19: Sin Multi -.\<close>

definition case18 :: "real \<Rightarrow> real \<Rightarrow> real \<Rightarrow> real \<Rightarrow> real \<Rightarrow> state \<Rightarrow> state" where
  "case18 cx cy size' tx ty s0 =
     (let s = s0\<lparr>var_v := var_v s0 + presetSpeed s0 / 5000\<rparr>;
          s = ctx_call (SetLineWidth (80 * DPR s)) s;
          w = visualW s / DPR s;
          yShift = (H s / DPR s) / 3 * sin (var_v s);
          s = for_range (- 4) 4 (\<lambda>r s.
                (let s = bar_color r s;
                     x = (var_m s + real_of_int r * w / 4) + tx;
                     y1 = lerp ((H s / DPR s) / 2) 200 (presetSize s / 100);
                     y2 = lerp ((H s / DPR s) / 2) ((H s / DPR s) - 200) (presetSize s / 100)
                 in strokeLineWorld x (yShift + y1 + ty) x (yShift + y2 + ty) s)) s;
          s = s\<lparr>var_m := var_m s + presetSpeed s / 4\<rparr>
      in if var_m s \<ge> w - 50 then s\<lparr>var_m := - 50\<rparr> else s)"

definition case19 :: "real \<Rightarrow> real \<Rightarrow> real \<Rightarrow> real \<Rightarrow> real \<Rightarrow> state \<Rightarrow> state" where
  "case19 cx cy size' tx ty s0 =
     (let s = s0\<lparr>var_v := var_v s0 + presetSpeed s0 / 5000\<rparr>;
          s = ctx_call (SetLineWidth (80 * DPR s)) s;
          h = H s / DPR s;
          xShift = (visualW s / DPR s) / 3 * sin (var_v s);
          s = for_range (- 4) 4 (\<lambda>r s.
                (let s = bar_color r s;
                     y = (var_m s + real_of_int r * h / 4) + ty;
                     x1 = lerp ((visualW s / DPR s) / 2) 200 (presetSize s / 100);
                     x2 = lerp ((visualW s / DPR s) / 2) ((visualW s / DPR s) - 200) (presetSize s / 100)
                 in strokeLineWorld (xShift + x1 + tx) y (xShift + x2 + tx) y s)) s;
          s = s\<lparr>var_m := var_m s + presetSpeed s / 4\<rparr>
      in if var_m s \<ge> h - 50 then s\<lparr>var_m := - 50\<rparr> else s)"

text \<open>20: Half Arc. \<open>v\<close> counts steps and restarts at 100 with a new origin and radius.\<close>

definition case20 :: "real \<Rightarrow> real \<Rightarrow> real \<Rightarrow> real \<Rightarrow> real \<Rightarrow> state \<Rightarrow> state" where
  "case20 cx cy size' tx ty s0 =
     (let s = ctx_call (SetLineWidth (presetSize s0 * DPR s0)) s0;
          s = ctx_call (SetFillStyle (Rgba 0 0 0 0)) s;
          s = setStrokeColor (if multiColor s then multiColorClr s else presetColor s) s;
          s = s\<lparr>var_v := var_v s + presetSpeed s / 20\<rparr>;
          s = (if var_v s \<ge> 100 then
                 (let s = s\<lparr>var_v := 0\<rparr>;
                      (r1, s) = Math_random s;
                      s = s\<lparr>var_a := real_of_int \<lfloor>r1 * 21\<rfloor>\<rparr>;
                      (r2, s) = Math_random s;
                      s = s\<lparr>var_b := real_of_int \<lfloor>r2 * 21\<rfloor>\<rparr>;
                      (r3, s) = Math_random s
                  in s\<lparr>var_c := real_of_int \<lfloor>350 + r3 * max 1 ((H s / DPR s) - 400)\<rfloor>\<rparr>)
               else s);
          ang = var_v s * pi / 50;
          w = visualW s / DPR s;
          h = H s / DPR s
      in if var_a s \<le> 10 \<and> var_b s \<le> 10 then
           arcWorld (w + tx) (h / 2 + ty) (var_c s) (ang - pi / 2) (ang + pi / 2) s
         else if var_a s \<le> 10 \<and> var_b s > 10 then
           arcWorld (w / 2 + tx) (h + ty) (var_c s) ang (ang + pi) s
         else if var_a s > 10 \<and> var_b s \<le> 10 then
           arcWorld (0 + tx) (h / 2 + ty) (var_c s) (ang + pi / 2) (ang + 3 * pi / 2) s
         else
           arcWorld (w / 2 + tx) (0 + ty) (var_c s) (ang - pi) ang s)"

text \<open>21: Sin + Rays.\<close>

definition case21 :: "real \<Rightarrow> real \<Rightarrow> real \<Rightarrow> real \<Rightarrow> real \<Rightarrow> state \<Rightarrow> state" where
  "case21 cx cy size' tx ty s0 =
     (let w = visualW s0 / DPR s0
      in for_below (w / 16) (\<lambda>f s.
           (let s = (if jsrem (int f) 14 < 1
                     then ctx_call (SetFillStyle (rgba (multiColorClr s) 1)) s
                     else ctx_call (SetFillStyle (rgba (presetColor s) (clamp (presetBrightness s / 200) 0 1))) s);
                x = 16 * real f + tx;
                y = cy + ty + 4.5 * presetSize s * sin (var_v s - real f / 15);
                s = fillCircleWorld x y 40 s
            in s\<lparr>var_v := var_v s + presetSpeed s / 90000\<rparr>)) s0)"

text \<open>22: Rot Lines. Two rows of segments; \<open>m\<close> advances by one per frame.\<close>

definition case22 :: "real \<Rightarrow> real \<Rightarrow> real \<Rightarrow> real \<Rightarrow> real \<Rightarrow> state \<Rightarrow> state" where
  "case22 cx cy size' tx ty s0 =
     (let s = s0\<lparr>var_v := var_v s0 + presetSpeed s0 / 3000\<rparr>;
          w = visualW s / DPR s;
          s = ctx_call (SetLineWidth ((50 + 0.5 * presetSize s) * DPR s)) s;
          s = for_range (- 8) 8 (\<lambda>r s.
                (let s = bar_color r s;
                     x1 = (var_m s + real_of_int r * w / 8) - w / 2;
                     x2 = (var_m s + (real_of_int r + 1) * w / 8) - w / 2
                 in strokeLineWorld (cx + tx + x1) (cy + ty - presetSize s * (H s / DPR s) / 200 + 30)
                      (cx + tx + x2) (cy + ty - presetSize s * (H s / DPR s) / 200 + 30) s)) s;
          s = for_range (- 8) 8 (\<lambda>r s.
                (let s = bar_color r s;
                     x1 = (var_m s + real_of_int r * w / 8) - w / 2;
                     x2 = (var_m s + (real_of_int r + 1) * w / 8) - w / 2
                 in strokeLineWorld (cx + tx + x1) (cy + ty + presetSize s * (H s / DPR s) / 200 - 30)
                      (cx + tx + x2) (cy + ty + presetSize s * (H s / DPR s) / 200 - 30) s)) s;
          s = s\<lparr>var_m := var_m s + 1\<rparr>
      in if var_m s \<ge> w - 50 then s\<lparr>var_m := - 50\<rparr> else s)"

text \<open>23: Solid.\<close>

definition case23 :: "real \<Rightarrow> real \<Rightarrow> real \<Rightarrow> real \<Rightarrow> real \<Rightarrow> state \<Rightarrow> state" where
  "case23 cx cy size' tx ty s0 =
     (let s = ctx_call (SetTransform 1 0 0 1 0 0) s0;
          s = ctx_call (SetFillStyle (rgba (presetColor s) (clamp (presetBrightness s / 100) 0 1))) s
      in ctx_call (FillRect 0 0 (visualW s) (H s)) s)"

text \<open>24: 4 Scan, 25: 4 Rot.\<close>

definition case24 :: "real \<Rightarrow> real \<Rightarrow> real \<Rightarrow> real \<Rightarrow> real \<Rightarrow> state \<Rightarrow> state" where
  "case24 cx cy size' tx ty s0 =
     (let s = ctx_call (SetLineWidth ((0.8 * presetSize s0) * DPR s0)) s0;
          sp = 500 * var_v s;
          rr = presetSize s * (H s / DPR s) / 240;
          sx = rr * sin sp;
          cy1 = (H s / DPR s) / 4 + ty;
          cy2 = 3 * (H s / DPR s) / 4 + ty;
          cx1 = (visualW s / DPR s) / 4 + tx;
          cx2 = 3 * (visualW s / DPR s) / 4 + tx;
          s = setStrokeColor (presetColor s) s;
          s = strokeLineWorld (cx1 + sx) (cy1 - rr * cos sp) (cx1 - sx) (cy1 - rr * cos sp) s;
          s = strokeLineWorld (cx2 + sx) (cy2 - rr * cos sp) (cx2 - sx) (cy2 - rr * cos sp) s;
          s = (if multiColor s then setStrokeColor (multiColorClr s) s else s);
          s = strokeLineWorld (cx2 - sx) (cy1 + rr * cos sp) (cx2 - sx) (cy1 - rr * cos sp) s;
          s = strokeLineWorld (cx1 - sx) (cy2 + rr * cos sp) (cx1 - sx) (cy2 - rr * cos sp) s
      in s\<lparr>var_v := var_v s + presetSpeed s / 360000\<rparr>)"

definition case25 :: "real \<Rightarrow> real \<Rightarrow> real \<Rightarrow> real \<Rightarrow> real \<Rightarrow> state \<Rightarrow> state" where
  "case25 cx cy size' tx ty s0 =
     (let s = ctx_call (SetLineWidth ((0.8 * presetSize s0) * DPR s0)) s0;
          sp = 500 * var_v s;
          rr = presetSize s * (H s / DPR s) / 240;
          cy1 = (H s / DPR s) / 4 + ty;
          cy2 = 3 * (H s / DPR s) / 4 + ty;
          cx1 = (visualW s / DPR s) / 4 + tx;
          cx2 = 3 * (visualW s / DPR s) / 4 + tx;
          s = setStrokeColor (presetColor s) s;
          s = strokeLineWorld (cx1 + rr * sin sp) (cy1 + rr * cos sp) (cx1 - rr * sin sp) (cy1 - rr * cos sp) s;
          s = strokeLineWorld (cx2 + rr * sin sp) (cy2 + rr * cos sp) (cx2 - rr * sin sp) (cy2 - rr * cos sp) s;
          s = (if multiColor s then setStrokeColor (multiColorClr s) s else s);
          s = strokeLineWorld (cx2 + rr * cos sp) (cy1 + rr * sin sp) (cx2 - rr * cos sp) (cy1 - rr * sin sp) s;
          s = strokeLineWorld (cx1 + rr * cos sp) (cy2 + rr * sin sp) (cx1 - rr * cos sp) (cy2 - rr * sin sp) s
      in s\<lparr>var_v := var_v s + presetSpeed s / 360000\<rparr>)"

text \<open>26: 4 Rings, 27: Crazy Rings.\<close>

definition case26 :: "real \<Rightarrow> real \<Rightarrow> real \<Rightarrow> real \<Rightarrow> real \<Rightarrow> state \<Rightarrow> state" where
  "case26 cx cy size' tx ty s0 =
     (let s1 = s0\<lparr>var_v := var_v s0 + presetSpeed s0 / 4000\<rparr>
      in for_count 4 (\<lambda>q s.
           (let qx = (if jsrem (int q) 2 = 0 then (visualW s / DPR s) / 4 else 3 * (visualW s / DPR s) / 4);
                qy = (if q < 2 then (H s / DPR s) / 4 else 3 * (H s / DPR s) / 4);
                rot = (if q = 0 \<or> q = 3 then var_v s else - var_v s)
            in for_count 18 (\<lambda>i s.
                 (let s = setFillColor (altColor s (int i)) s;
                      r = (presetSize s * 0.6 + 3) * (H s / DPR s) / 120;
                      a2 = real i * pi / 9 + rot;
                      x = qx + tx + r * sin a2;
                      y = qy + ty + r * cos a2
                  in fillCircleWorld x y (0.25 * presetSize s + 3) s)) s)) s1)"

definition case27 :: "real \<Rightarrow> real \<Rightarrow> real \<Rightarrow> real \<Rightarrow> real \<Rightarrow> state \<Rightarrow> state" where
  "case27 cx cy size' tx ty s0 =
     (let s1 = s0\<lparr>var_v := var_v s0 + presetSpeed s0 / 20000\<rparr>
      in for_range 0 1 (\<lambda>xx s.
           for_range 0 1 (\<lambda>yy s.
             (let qx = (2 * real_of_int xx + 1) * (visualW s / DPR s) / 4;
                  qy = (2 * real_of_int yy + 1) * (H s / DPR s) / 4;
                  rot = var_v s * (1 + real_of_int xx - real_of_int yy)
              in for_count 18 (\<lambda>i s.
                   (let s = setFillColor (altColor s (int i + xx + yy)) s;
                        r = (presetSize s + 40) * (H s / DPR s) / 240;
                        a2 = real i * pi / 9 + rot;
                        x = qx + tx + r * sin a2;
                        y = qy + ty + r * cos a2
                    in fillCircleWorld x y (0.15 * (presetSize s + 40)) s)) s)) s) s1)"

text \<open>28: Ring Scan.\<close>

definition case28 :: "real \<Rightarrow> real \<Rightarrow> real \<Rightarrow> real \<Rightarrow> real \<Rightarrow> state \<Rightarrow> state" where
  "case28 cx cy size' tx ty s0 =
     (let s = s0\<lparr>var_v := var_v s0 + presetSpeed s0 / 800\<rparr>;
          x1 = cx + tx - presetSize s * ((visualW s / DPR s - 45) / 250) * cos (var_v s);
          y1 = cy + ty + presetSize s * ((H s / DPR s - 45) / 250) * sin (var_v s);
          s = setFillColor (presetColor s) s;
          s = fillCircleWorld x1 y1 22.5 s;
          x2 = cx + tx + presetSize s * ((visualW s / DPR s - 60) / 190) * cos (var_v s);
          y2 = cy + ty + presetSize s * ((H s / DPR s - 60) / 190) * sin (var_v s);
          s = (if multiColor s then setFillColor (multiColorClr s) s else s)
      in fillCircleWorld x2 y2 30 s)"

text \<open>29: Tunnel Rect. \<open>m\<close> runs from 0 to 220.\<close>

definition case29 :: "real \<Rightarrow> real \<Rightarrow> real \<Rightarrow> real \<Rightarrow> real \<Rightarrow> state \<Rightarrow> state" where
  "case29 cx cy size' tx ty s0 =
     (let w = visualW s0 / DPR s0;
          h = H s0 / DPR s0;
          cx0 = cx + tx;
          cy0 = cy + ty;
          s = ctx_call (SetFillStyle (Rgba 0 0 0 0)) s0;
          s = (if var_m s \<ge> 110 then
                 (let s = ctx_call (SetLineWidth (max 0 ((presetSize s + 1) * (220 - var_m s) / 110) * DPR s)) s;
                      s = setStrokeColor (multiColorClr s) s;
                      sz = 220 - var_m s
                  in strokeRectCenteredWorld cx0 cy0 (sz * w / 100) (sz * h / 100) s)
               else
                 (let s = ctx_call (SetLineWidth (((presetSize s + 1) * var_m s / 110) * DPR s)) s;
                      s = setStrokeColor (presetColor s) s
                  in strokeRectCenteredWorld cx0 cy0 (var_m s * w / 100) (var_m s * h / 100) s));
          s = s\<lparr>var_m := var_m s + presetSpeed s / 40\<rparr>
      in if var_m s \<ge> 220 then s\<lparr>var_m := 0\<rparr> else s)"

text \<open>30: Dot Grid.\<close>

definition case30 :: "real \<Rightarrow> real \<Rightarrow> real \<Rightarrow> real \<Rightarrow> real \<Rightarrow> state \<Rightarrow> state" where
  "case30 cx cy size' tx ty s0 =
     (let s = s0\<lparr>var_v := var_v s0 + presetSpeed s0 / 1200\<rparr>;
          w = visualW s / DPR s;
          dotSize = lerp 10 (w / 18) (presetSize s / 100)
      in for_range 0 9 (\<lambda>i s.
           for_range 0 9 (\<lambda>j s.
             (let brightVal = clamp (- 100 + 355 * sin (var_v s + 31 * (real_of_int i + real_of_int j)))
                                0 (presetBrightness s * 255 / 100);
                  alpha2 = clamp (brightVal / 255) 0 1;
                  col = (if multiColor s \<and> jsrem (i + j) 2 = 1 then multiColorClr s else presetColor s);
                  s = ctx_call (SetFillStyle (rgba col alpha2)) s;
                  x = real_of_int i * w / 10 + w / 30 + tx;
                  y = real_of_int j * w / 10 + w / 30 + ty
              in fillCircleWorld x y (dotSize / 2) s)) s) s)"

text \<open>
  31: Quad LED. \<open>drawQuadLED\<close> is the inner function of the case; \<open>Math.round\<close> is
  \<open>round\<close>. The three clusters are \<open>(x, y, phase)\<close>.
\<close>

definition drawQuadLED :: "real \<Rightarrow> real \<Rightarrow> real \<Rightarrow> state \<Rightarrow> state" where
  "drawQuadLED x y brightPct s0 =
     (let SIZE = real_of_int (round (8 * (presetSize s0 + 50) / 100));
          base = presetColor s0;
          alt = (if multiColor s0 then multiColorClr s0 else presetColor s0);
          redOn = (cr base > 0 \<or> cr alt > 0);
          greenOn = (cg base > 0 \<or> cg alt > 0);
          blueOn = (cb base > 0 \<or> cb alt > 0);
          al = clamp (brightPct / 100) 0 1;
          s = (if redOn then
                 ctx_calls [SetFillStyle (Rgba 255 0 0 al),
                            FillRect (worldToCanvasX s0 (x - SIZE - 1)) (worldToCanvasY s0 (y - SIZE - 1))
                                     (SIZE * DPR s0) (SIZE * DPR s0)] s0
               else s0);
          s = (if greenOn then
                 ctx_calls [SetFillStyle (Rgba 0 255 0 al),
                            FillRect (worldToCanvasX s (x + 1)) (worldToCanvasY s (y - SIZE - 1))
                                     (SIZE * DPR s) (SIZE * DPR s)] s
               else s);
          s = (if blueOn then
                 ctx_calls [SetFillStyle (Rgba 0 0 255 al),
                            FillRect (worldToCanvasX s (x - SIZE - 1)) (worldToCanvasY s (y + 1))
                                     (SIZE * DPR s) (SIZE * DPR s)] s
               else s)
      in if cr base > 0 \<and> cg base > 0 \<and> cb base > 0 then
           ctx_calls [SetFillStyle (Rgba 255 255 255 al),
                      FillRect (worldToCanvasX s (x + 1)) (worldToCanvasY s (y + 1))
                               (SIZE * DPR s) (SIZE * DPR s)] s
         else s)"

definition case31 :: "real \<Rightarrow> real \<Rightarrow> real \<Rightarrow> real \<Rightarrow> real \<Rightarrow> state \<Rightarrow> state" where
  "case31 cx cy size' tx ty s0 =
     (let LEN = 5 * (H s0 / DPR s0) / 40;
          BLINKSPD = 3.0;
          THRESH = 0.2;
          s1 = s0\<lparr>var_v := var_v s0 + lerp (- 0.06) 0.06 (presetSpeed s0 / 100)\<rparr>;
          clusters =
            [((visualW s1 / DPR s1) * 14 / 40 + tx, (H s1 / DPR s1) * 4 / 12 + ty, 0),
             ((visualW s1 / DPR s1) * 26 / 40 + tx, (H s1 / DPR s1) * 4 / 12 + ty, 2 * pi / 3),
             ((visualW s1 / DPR s1) * 20 / 40 + tx, (H s1 / DPR s1) * 8 / 12 + ty, 4 * pi / 3)]
      in fold (\<lambda>(clx, cly, phase) s.
           (let sn = sin (BLINKSPD * var_v s + phase);
                BRIGHT = (if sn > THRESH then lerp 100 0 ((sn - THRESH) / (1 - THRESH))
                          else presetBrightness s);
                rot = var_v s
            in for_range 0 4 (\<lambda>e s.
                 for_range 0 4 (\<lambda>f s.
                   (if \<not> ((e = 0 \<and> f = 0) \<or> (e = 4 \<and> f = 0) \<or> (e = 0 \<and> f = 4)
                           \<or> (e = 4 \<and> f = 4) \<or> (e = 2 \<and> f = 2)) then
                      (let x = clx + (LEN * real_of_int e - 2 * LEN) * cos rot
                                   - (LEN * real_of_int f - 2 * LEN) * sin rot;
                           y = cly + (LEN * real_of_int e - 2 * LEN) * sin rot
                                   + (LEN * real_of_int f - 2 * LEN) * cos rot
                       in drawQuadLED x y (real_of_int (round (BRIGHT * presetBrightness s / 100))) s)
                    else s)) s) s)) clusters s1)"

text \<open>32: Circle Spin.\<close>

definition case32 :: "real \<Rightarrow> real \<Rightarrow> real \<Rightarrow> real \<Rightarrow> real \<Rightarrow> state \<Rightarrow> state" where
  "case32 cx cy size' tx ty s0 =
     (let s = s0\<lparr>var_v := var_v s0 + presetSpeed s0 / 2000\<rparr>;
          radius = lerp 60 ((H s / DPR s) * 0.35) (presetSize s / 100);
          s = ctx_call (SetLineWidth (lerp 4 60 (presetSize s / 100) * DPR s)) s
      in if multiColor s then
           for_count 8 (\<lambda>i s.
             (let s = setStrokeColor (if jsrem (int i) 2 = 0 then presetColor s else multiColorClr s) s;
                  start = var_v s + real i * pi / 4;
                  end' = start + pi / 4
              in arcWorld (cx + tx) (cy + ty) (radius * 2) start end' s)) s
         else
           (let s = setStrokeColor (presetColor s) s
            in arcWorld (cx + tx) (cy + ty) (radius * 2) 0 (pi * 2) s))"

text \<open>
  The two passes over the dashed outline that presets 33 and 34 share, and the four
  assignments that put the context's line settings back.
\<close>

definition dash_strokes :: "real \<Rightarrow> real \<Rightarrow> state \<Rightarrow> state" where
  "dash_strokes anim segLen s0 =
     (if multiColor s0 then
        (let s = setStrokeColor (presetColor s0) s0;
             s = ctx_call Stroke s;
             s = ctx_call (SetLineDashOffset (anim - segLen)) s;
             s = setStrokeColor (multiColorClr s) s
         in ctx_call Stroke s)
      else
        (let s = setStrokeColor (presetColor s0) s0
         in ctx_call Stroke s))"

definition restore_line :: "string \<Rightarrow> string \<Rightarrow> real list \<Rightarrow> real \<Rightarrow> state \<Rightarrow> state" where
  "restore_line prevCap prevJoin prevDash prevDashOff s =
     ctx_calls [SetLineDash prevDash, SetLineDashOffset prevDashOff,
                SetLineCap prevCap, SetLineJoin prevJoin] s"

text \<open>33: Square Spin. \<open>_sqSpin\<close> advances here and nowhere else.\<close>

definition case33 :: "real \<Rightarrow> real \<Rightarrow> real \<Rightarrow> real \<Rightarrow> real \<Rightarrow> state \<Rightarrow> state" where
  "case33 cx cy size' tx ty s0 =
     (let s = s0\<lparr>var_v := var_v s0 + presetSpeed s0 / 2000\<rparr>;
          shapeSpinMul = 20.0;
          s = s\<lparr>sqSpin := sqSpin s + (presetSpeed s / 60000) * shapeSpinMul\<rparr>;
          s = ctx_call (SetFillStyle (Rgba 0 0 0 0)) s;
          s = ctx_call (SetLineWidth (lerp 4 60 (presetSize s / 100) * DPR s)) s;
          prevCap = lineCap (ctx s);
          prevJoin = lineJoin (ctx s);
          prevDash = lineDash (ctx s);
          prevDashOff = lineDashOffset (ctx s);
          s = ctx_call (SetLineCap ''round'') s;
          s = ctx_call (SetLineJoin ''round'') s;
          half = lerp 80 (0.38 * min (visualW s / DPR s) (H s / DPR s)) (presetSize s / 100);
          stripesPerSide = 6;
          totalSeg = max 4 (\<lfloor>stripesPerSide :: real\<rfloor> * 4);
          s = ctx_calls [Save, SetTransform 1 0 0 1 0 0,
                         Translate ((cx + tx) * DPR s) ((cy + ty) * DPR s), Rotate (sqSpin s)] s;
          sidePx = 2 * half * DPR s;
          peri = 4 * sidePx;
          segLen = peri / real_of_int totalSeg;
          s = ctx_call (SetLineDash [segLen, segLen]) s;
          dashSpeed = 2.0;
          anim = - (var_v s * segLen * dashSpeed);
          s = ctx_call (SetLineDashOffset anim) s;
          s = ctx_calls [BeginPath, Rect (- sidePx / 2) (- sidePx / 2) sidePx sidePx] s;
          s = dash_strokes anim segLen s;
          s = ctx_call Restore s
      in restore_line prevCap prevJoin prevDash prevDashOff s)"

text \<open>34: Triangle Spin. \<open>Math.hypot(x, y)\<close> is \<open>sqrt (x\<^sup>2 + y\<^sup>2)\<close>.\<close>

definition hypot :: "real \<Rightarrow> real \<Rightarrow> real" where
  "hypot x y = sqrt (x * x + y * y)"

definition case34 :: "real \<Rightarrow> real \<Rightarrow> real \<Rightarrow> real \<Rightarrow> real \<Rightarrow> state \<Rightarrow> state" where
  "case34 cx cy size' tx ty s0 =
     (let s = s0\<lparr>var_v := var_v s0 + presetSpeed s0 / 2000\<rparr>;
          shapeSpinMul = 20.0;
          s = s\<lparr>triSpin := triSpin s + (presetSpeed s / 60000) * shapeSpinMul\<rparr>;
          s = ctx_call (SetFillStyle (Rgba 0 0 0 0)) s;
          s = ctx_call (SetLineWidth (lerp 4 60 (presetSize s / 100) * DPR s)) s;
          prevCap = lineCap (ctx s);
          prevJoin = lineJoin (ctx s);
          prevDash = lineDash (ctx s);
          prevDashOff = lineDashOffset (ctx s);
          s = ctx_call (SetLineCap ''round'') s;
          s = ctx_call (SetLineJoin ''round'') s;
          r = lerp 90 (0.42 * min (visualW s / DPR s) (H s / DPR s)) (presetSize s / 100);
          stripesPerSide = 6;
          totalSeg = max 3 (\<lfloor>stripesPerSide :: real\<rfloor> * 3);
          s = ctx_calls [Save, SetTransform 1 0 0 1 0 0,
                         Translate ((cx + tx) * DPR s) ((cy + ty) * DPR s), Rotate (triSpin s)] s;
          rrPx = r * DPR s;
          p1 = (0, - rrPx);
          p2 = (0.866 * rrPx, 0.5 * rrPx);
          p3 = (- 0.866 * rrPx, 0.5 * rrPx);
          d12 = hypot (fst p2 - fst p1) (snd p2 - snd p1);
          d23 = hypot (fst p3 - fst p2) (snd p3 - snd p2);
          d31 = hypot (fst p1 - fst p3) (snd p1 - snd p3);
          peri = d12 + d23 + d31;
          segLen = peri / real_of_int totalSeg;
          s = ctx_call (SetLineDash [segLen, segLen]) s;
          dashSpeed = 2.0;
          anim = - (var_v s * segLen * dashSpeed);
          s = ctx_call (SetLineDashOffset anim) s;
          s = ctx_calls [BeginPath, MoveTo (fst p1) (snd p1), LineTo (fst p2) (snd p2),
                         LineTo (fst p3) (snd p3), ClosePath] s;
          s = dash_strokes anim segLen s;
          s = ctx_call Restore s
      in restore_line prevCap prevJoin prevDash prevDashOff s)"

section \<open>drawPreset\<close>

text \<open>
  The audio features \<open>{amp, bass, mid, tre, centroid}\<close> are an argument that no case
  reads. \<open>motion\<close> is \<open>{x, y}\<close>, a pair here. An index without a \<open>case\<close> falls to
  \<open>default: break\<close>.
\<close>

record feats =
  amp :: real
  bass :: real
  mid :: real
  tre :: real
  centroid :: real

definition drawPreset :: "int \<Rightarrow> feats \<Rightarrow> real \<times> real \<Rightarrow> state \<Rightarrow> state" where
  "drawPreset idx fts motion s =
     (let cx = (visualW s / DPR s) / 2;
          cy = (H s / DPR s) / 2;
          size' = 0.9 * presetSize s + 10;
          tx = fst motion;
          ty = snd motion
      in if \<not> onoff s then s
         else if idx = 0 then case0 cx cy size' tx ty s
         else if idx = 1 then case1 cx cy size' tx ty s
         else if idx = 2 then case2 cx cy size' tx ty s
         else if idx = 3 then case3 cx cy size' tx ty s
         else if idx = 4 then case4 cx cy size' tx ty s
         else if idx = 5 then case5 cx cy size' tx ty s
         else if idx = 6 then case6 cx cy size' tx ty s
         else if idx = 7 then case7 cx cy size' tx ty s
         else if idx = 8 then case8 cx cy size' tx ty s
         else if idx = 9 then case9 cx cy size' tx ty s
         else if idx = 10 then case10 cx cy size' tx ty s
         else if idx = 11 then case11 cx cy size' tx ty s
         else if idx = 12 then case12 cx cy size' tx ty s
         else if idx = 13 then case13 cx cy size' tx ty s
         else if idx = 14 then case14 cx cy size' tx ty s
         else if idx = 15 then case15 cx cy size' tx ty s
         else if idx = 16 then case16 cx cy size' tx ty s
         else if idx = 17 then case17 cx cy size' tx ty s
         else if idx = 18 then case18 cx cy size' tx ty s
         else if idx = 19 then case19 cx cy size' tx ty s
         else if idx = 20 then case20 cx cy size' tx ty s
         else if idx = 21 then case21 cx cy size' tx ty s
         else if idx = 22 then case22 cx cy size' tx ty s
         else if idx = 23 then case23 cx cy size' tx ty s
         else if idx = 24 then case24 cx cy size' tx ty s
         else if idx = 25 then case25 cx cy size' tx ty s
         else if idx = 26 then case26 cx cy size' tx ty s
         else if idx = 27 then case27 cx cy size' tx ty s
         else if idx = 28 then case28 cx cy size' tx ty s
         else if idx = 29 then case29 cx cy size' tx ty s
         else if idx = 30 then case30 cx cy size' tx ty s
         else if idx = 31 then case31 cx cy size' tx ty s
         else if idx = 32 then case32 cx cy size' tx ty s
         else if idx = 33 then case33 cx cy size' tx ty s
         else if idx = 34 then case34 cx cy size' tx ty s
         else s)"

text \<open>
  The end of \<open>loop()\<close>: \<^verbatim>\<open>if (!onoff) { return; } drawPreset(presetNumber, feats, motion);\<close>
\<close>

definition loop_draw :: "feats \<Rightarrow> real \<times> real \<Rightarrow> state \<Rightarrow> state" where
  "loop_draw fts motion s = (if \<not> onoff s then s else drawPreset (presetNumber s) fts motion s)"

section \<open>Selecting a preset\<close>

text \<open>
  \<open>presetNames\<close> is the list of \<open>presets.js\<close>; the dash of three of its names is
  written as its three UTF-8 bytes. \<open>presetCount()\<close> is its length, or 32 were it empty.
\<close>

definition presetNames :: "string list" where
  "presetNames =
     [''Ring (sin)'', ''Ring (rot)'', ''3 Rings'', ''Rand Lines'', ''Rand Ring'', ''Sinus'',
      ''Sin Blocks'', ''Cross'', ''Discoball'', ''Rand Circles'', ''Rand Rings'', ''Scan |'',
      ''Scan '' @ [CHR 0xE2, CHR 0x80, CHR 0x94], ''2 Scan'', ''PingPong'', ''Mouse Spot'',
      ''Multi |'', ''Multi '' @ [CHR 0xE2, CHR 0x80, CHR 0x94], ''Sin Multi |'',
      ''Sin Multi '' @ [CHR 0xE2, CHR 0x80, CHR 0x94], ''Half Arc'', ''Sin + Rays'', ''Rot Lines'',
      ''Solid'', ''4 Scan'', ''4 Rot'', ''4 Rings'', ''Crazy Rings'', ''Ring Scan'', ''Tunnel Rect'',
      ''Dot Grid'', ''Quad LED'', ''Circle Spin'', ''Square Spin'', ''Triangle Spin'']"

definition presetCount :: int where
  "presetCount = (if length presetNames > 0 then int (length presetNames) else 32)"

text \<open>
  \<open>selectPreset(idx, {user})\<close>. After the assignments it calls \<open>renderPresetGrid()\<close> and
  \<open>sendStateToPopup(true)\<close>, which rebuild the buttons of the page and post to the
  pop-out window and write none of the variables of \<open>state\<close>; the final
  \<open>if (user && beatDJ)\<close> has an empty body.
\<close>

definition selectPreset :: "int \<Rightarrow> bool \<Rightarrow> state \<Rightarrow> state" where
  "selectPreset idx0 user s0 =
     (let idx = clamp idx0 0 (presetCount - 1)
      in if idx = presetNumber s0 then s0
         else
           (let s = s0\<lparr>presetNumber := idx\<rparr>;
                (r, s) = Math_random s;
                s = s\<lparr>var_v := 0.2 + r * 0.8\<rparr>;
                s = s\<lparr>var_m := 0\<rparr>
            in if presetNumber s = 8 then initDiscoball s else s))"

section \<open>Motion path blending\<close>

text \<open>
  \<open>x % y\<close> on numbers is the remainder of the division truncated toward zero;
  \<open>Math.pow(x, 3)\<close> is the third power.
\<close>

definition jsmod :: "real \<Rightarrow> real \<Rightarrow> real" where
  "jsmod x y = x - y * real_of_int (if x / y \<ge> 0 then \<lfloor>x / y\<rfloor> else \<lceil>x / y\<rceil>)"

definition easeInOutCubic :: "real \<Rightarrow> real" where
  "easeInOutCubic t = (if t < 0.5 then 4 * t * t * t else 1 - (- 2 * t + 2) ^ 3 / 2)"

definition motionBlendDurationSec :: "state \<Rightarrow> real" where
  "motionBlendDurationSec s = lerp 1.8 0.10 (clamp (transitionSpeed s / 100) 0 1)"

text \<open>
  \<open>motionPos(mode, phase, r)\<close>. The modes are strings; anything other than
  \<open>'off'\<close>, \<open>'circle'\<close> and \<open>'square'\<close> takes the triangle branch. The vertex arrays
  \<open>P\<close> are indexed by \<open>seg\<close> and \<open>seg + 1\<close>, which \<open>motionPos_segments\<close> below shows
  to be inside them.
\<close>

definition square_path :: "real \<Rightarrow> (real \<times> real) list" where
  "square_path r = [(r, - r), (r, r), (- r, r), (- r, - r), (r, - r)]"

definition triangle_path :: "real \<Rightarrow> (real \<times> real) list" where
  "triangle_path r = [(0, - r), (r, r), (- r, r), (0, - r)]"

definition motionPos :: "string \<Rightarrow> real \<Rightarrow> real \<Rightarrow> real \<times> real" where
  "motionPos mode phase r =
     (let t = jsmod (jsmod phase 1 + 1) 1
      in if mode = ''off'' then (0, 0)
         else if mode = ''circle'' then
           (let ang = t * pi * 2 in (r * cos ang, r * sin ang))
         else if mode = ''square'' then
           (let sv = t * 4;
                seg = \<lfloor>sv\<rfloor>;
                u = sv - real_of_int seg;
                P = square_path r;
                p0 = P ! nat seg;
                p1 = P ! nat (seg + 1)
            in (lerp (fst p0) (fst p1) u, lerp (snd p0) (snd p1) u))
         else
           (let sv = t * 3;
                seg = \<lfloor>sv\<rfloor>;
                u = sv - real_of_int seg;
                P = triangle_path r;
                p0 = P ! nat seg;
                p1 = P ! nat (seg + 1)
            in (lerp (fst p0) (fst p1) u, lerp (snd p0) (snd p1) u)))"

definition setMotionMode :: "string \<Rightarrow> state \<Rightarrow> state" where
  "setMotionMode next s0 =
     (if next = motionToMode s0 then s0
      else
        (let s = s0\<lparr>motionFromMode := motionToMode s0\<rparr>;
             s = s\<lparr>motionToMode := next\<rparr>;
             (t, s) = nowMs s;
             s = s\<lparr>motionBlendStart := t\<rparr>
         in s\<lparr>motionBlending := True\<rparr>))"

text \<open>
  \<open>computeMotionOffset(tNow, dt)\<close> returns the offset and leaves the advanced phase and,
  when the blend has completed, the collapsed \<open>from\<close> mode behind. \<open>motion_phase_step\<close>,
  \<open>motion_radius\<close> and \<open>motion_blend\<close> are its \<open>motionPhase\<close> after the first
  statement, its \<open>r\<close> and the \<open>blend\<close> it computes while blending.
\<close>

definition motion_phase_step :: "real \<Rightarrow> state \<Rightarrow> real" where
  "motion_phase_step dt s =
     (let cps = lerp 0 0.22 (clamp (presetSpeed s / 100) 0 1)
      in jsmod (motionPhase s + dt * cps) 1)"

definition motion_radius :: "state \<Rightarrow> real" where
  "motion_radius s = 0.18 * min (visualW s / DPR s) (H s / DPR s)"

definition motion_blend :: "real \<Rightarrow> state \<Rightarrow> real" where
  "motion_blend tNow s =
     (let dur = motionBlendDurationSec s * 1000
      in easeInOutCubic (clamp ((tNow - motionBlendStart s) / dur) 0 1))"

definition computeMotionOffset :: "real \<Rightarrow> real \<Rightarrow> state \<Rightarrow> (real \<times> real) \<times> state" where
  "computeMotionOffset tNow dt s0 =
     (let s = s0\<lparr>motionPhase := motion_phase_step dt s0\<rparr>;
          r = motion_radius s;
          from' = motionPos (motionFromMode s) (motionPhase s) r;
          to' = motionPos (motionToMode s) (motionPhase s) r;
          (blend, s) =
            (if motionBlending s then
               (let blend = motion_blend tNow s
                in if blend \<ge> 1 then (blend, s\<lparr>motionFromMode := motionToMode s, motionBlending := False\<rparr>)
                   else (blend, s))
             else (1, s))
      in ((lerp (fst from') (fst to') blend, lerp (snd from') (snd to') blend), s))"

section \<open>An example state\<close>

text \<open>
  The variables as the script initialises them, for a 1280 by 720 window at device pixel
  ratio 1 with the panel hidden, when every \<open>Math.random()\<close> returns 0.5 and the clock
  reads 0: \<open>initDiscoball()\<close> then stores 0 everywhere and each of the 21 spotlights
  starts at (640, 360) with speed (20, 20).
\<close>

definition example_canvas :: canvas where
  "example_canvas =
     \<lparr>lineCap = ''round'', lineJoin = ''round'', lineDash = [], lineDashOffset = 0,
      saved = [], calls = []\<rparr>"

definition example_state :: state where
  "example_state =
     \<lparr>presetNumber = 0, presetSpeed = 30, presetSize = 50, presetBrightness = 100,
      multiColor = True, presetColor = rgb 0 0 255, multiColorClr = rgb 255 255 255,
      visualW = 1280, H = 720, DPR = 1,
      var_a = 0, var_b = 0, var_c = 0, var_d = 0, var_v = 0.2, var_m = 0,
      onoff = True, timeRand = 0,
      ranX = replicate 1000 0, ranY = replicate 1000 0,
      sqSpin = 0, triSpin = 0,
      spotlight = replicate 21 \<lparr>posX = 640, posY = 360, spdX = 20, spdY = 20\<rparr>,
      mouseXw = 0, mouseYw = 0,
      transitionSpeed = 55, motionPhase = 0, motionFromMode = ''off'', motionToMode = ''off'',
      motionBlendStart = 0, motionBlending = False,
      ctx = example_canvas,
      rnd = (\<lambda>n. 0.5), rndCount = 0, clock = (\<lambda>n. 0), clockCount = 0\<rparr>"

definition no_feats :: feats where
  "no_feats = \<lparr>amp = 0, bass = 0, mid = 0, tre = 0, centroid = 0\<rparr>"

section \<open>Runs of frames and observations\<close>

text \<open>
  \<open>frames idx inputs\<close> draws preset \<open>idx\<close> once for every entry of \<open>inputs\<close>, the
  audio features and motion offset of that frame. \<open>scroll_frames\<close> does the same after
  setting the speed slider to the value given for the frame.
\<close>

fun frames :: "int \<Rightarrow> (feats \<times> (real \<times> real)) list \<Rightarrow> state \<Rightarrow> state" where
  "frames idx [] s = s"
| "frames idx ((fts, motion) # rest) s = frames idx rest (drawPreset idx fts motion s)"

fun scroll_frames :: "int \<Rightarrow> (real \<times> feats \<times> (real \<times> real)) list \<Rightarrow> state \<Rightarrow> state" where
  "scroll_frames idx [] s = s"
| "scroll_frames idx ((speed, fts, motion) # rest) s =
     scroll_frames idx rest (drawPreset idx fts motion (s\<lparr>presetSpeed := speed\<rparr>))"

text \<open>
  What the proofs observe of a state: \<open>globals\<close> blanks the drawing context,
  \<open>painted f s\<close> is the context that \<open>f\<close> leaves, \<open>spins\<close> are the two rotation angles of
  presets 33 and 34, and \<open>endpoints\<close> are the random positions that presets 3, 4, 9 and 10
  draw from. Presets 16, 17, 18, 19 and 22 scroll with the accumulator \<open>m\<close>:
  \<open>scroll_extent\<close> is the dimension that the preset scrolls across (\<open>w\<close> in presets 16, 18
  and 22, \<open>h\<close> in presets 17 and 19) and \<open>scroll_step\<close> is what the preset adds to \<open>m\<close> in a
  frame (\<open>presetSpeed/3\<close>, \<open>presetSpeed/4\<close> or 1).
\<close>

definition globals :: "state \<Rightarrow> state" where
  "globals s = s\<lparr>ctx := example_canvas\<rparr>"

definition painted :: "(state \<Rightarrow> state) \<Rightarrow> state \<Rightarrow> canvas" where
  "painted f s = ctx (f s)"

definition spins :: "state \<Rightarrow> real \<times> real" where
  "spins s = (sqSpin s, triSpin s)"

definition endpoints :: "state \<Rightarrow> real \<times> real \<times> real \<times> real \<times> 32 word list \<times> 32 word list" where
  "endpoints s = (var_a s, var_b s, var_c s, var_d s, ranX s, ranY s)"

text \<open>
  \<open>refresh_due idx s\<close> is the test that a frame of preset 3, 4, 9 or 10 drawn from \<open>s\<close>
  makes, on the first clock reading of the frame. \<open>refreshed_endpoints idx s\<close> is what the
  refresh of that preset stores, written out: the \<open>j\<close>-th call of \<open>Math.random()\<close> of the
  frame returns \<open>rnd s (rndCount s + j)\<close>. Preset 3 redraws \<open>a\<close>, \<open>b_\<close>, \<open>c\<close>, \<open>d\<close>,
  preset 4 redraws \<open>a\<close>, \<open>b_\<close> and the angle \<open>c\<close>, presets 9 and 10 redraw the first
  \<open>count\<close> entries of \<open>ranX\<close> and \<open>ranY\<close>, two calls for each entry.
\<close>

definition refresh_due :: "int \<Rightarrow> state \<Rightarrow> bool" where
  "refresh_due idx s =
     (clock s (clockCount s) - timeRand s
        \<ge> rand_interval (if idx = 3 \<or> idx = 4 then 10 else 9.5) (presetSpeed s))"

definition refreshed_endpoints ::
  "int \<Rightarrow> state \<Rightarrow> real \<times> real \<times> real \<times> real \<times> 32 word list \<times> 32 word list" where
  "refreshed_endpoints idx s =
     (let w = visualW s / DPR s;
          h = H s / DPR s;
          r = (\<lambda>j. rnd s (rndCount s + j))
      in if idx = 3 then
           (real_of_int \<lfloor>50 + r 0 * (w - 100)\<rfloor>, real_of_int \<lfloor>50 + r 1 * (h - 100)\<rfloor>,
            real_of_int \<lfloor>50 + r 2 * (w - 100)\<rfloor>, real_of_int \<lfloor>50 + r 3 * (h - 100)\<rfloor>,
            ranX s, ranY s)
         else if idx = 4 then
           (real_of_int \<lfloor>150 + r 0 * (w - 300)\<rfloor>, real_of_int \<lfloor>150 + r 1 * (h - 300)\<rfloor>,
            r 2 * pi * 2, var_d s, ranX s, ranY s)
         else
           (let count = nat \<lfloor>(presetSize s + 10) / 10\<rfloor>;
                rad = (300 - 2.7 * presetSize s) / 2
            in (var_a s, var_b s, var_c s, var_d s,
                map (\<lambda>i. if i < count then word_of_int \<lfloor>rad + r (2 * i) * (w - 2 * rad)\<rfloor>
                         else ranX s ! i) [0..<length (ranX s)],
                map (\<lambda>i. if i < count then word_of_int \<lfloor>rad + r (2 * i + 1) * (h - 2 * rad)\<rfloor>
                         else ranY s ! i) [0..<length (ranY s)])))"

definition scroll_extent :: "int \<Rightarrow> state \<Rightarrow> real" where
  "scroll_extent idx s =
     (if idx = 16 \<or> idx = 18 \<or> idx = 22 then visualW s / DPR s else H s / DPR s)"

definition scroll_step :: "int \<Rightarrow> state \<Rightarrow> real" where
  "scroll_step idx s =
     (if idx = 16 \<or> idx = 17 then presetSpeed s / 3
      else if idx = 18 \<or> idx = 19 then presetSpeed s / 4
      else 1)"

section \<open>Beat detection: properties\<close>

lemma update_ema: "ema (snd (update e t s mi bd)) = ema bd + 0.06 * (e - ema bd)"
  by (simp add: update_def Let_def)

lemma update_dev:
  "dev (snd (update e t s mi bd)) = dev bd + 0.06 * (\<bar>e - (ema bd + 0.06 * (e - ema bd))\<bar> - dev bd)"
  by (simp add: update_def Let_def)

lemma update_prev: "prev (snd (update e t s mi bd)) = e"
  by (simp add: update_def Let_def)

lemma update_lastThr:
  "lastThr (snd (update e t s mi bd)) =
     ema (snd (update e t s mi bd)) + sens_k s * (dev (snd (update e t s mi bd)) * 1.10 + sens_base s)"
  by (simp add: update_def Let_def sens_k_def sens_base_def)

lemma update_dev_nonneg: "0 \<le> dev bd \<Longrightarrow> 0 \<le> dev (snd (update e t s mi bd))"
proof -
  assume d: "0 \<le> dev bd"
  have "dev bd + 0.06 * (\<bar>e - (ema bd + 0.06 * (e - ema bd))\<bar> - dev bd)
        = 0.94 * dev bd + 0.06 * \<bar>e - (ema bd + 0.06 * (e - ema bd))\<bar>"
    by (simp add: algebra_simps)
  also have "0 \<le> \<dots>" using d by simp
  finally show ?thesis by (simp add: update_dev)
qed

text \<open>
  C3. \<open>update\<close> returns true exactly when (a) \<open>tMs\<close> minus the last accepted beat is at
  least \<open>minIntervalMs\<close>, (b) \<open>energy\<close> is strictly above the previous sample,
  (c) \<open>energy\<close> is above the threshold \<open>ema + k * (dev * 1.10 + base)\<close> taken at the
  freshly updated \<open>ema\<close> and \<open>dev\<close>, and (d) \<open>energy\<close> is above the absolute gate.
  A true return stores \<open>tMs\<close> as the last beat, a false return keeps the old one, and every
  call moves \<open>ema\<close> and \<open>dev\<close> with the smoothing factor 0.06.
\<close>

theorem update_fires_iff:
  "fst (update energy tMs sens01 minIntervalMs bd) =
     (tMs - lastBeat bd \<ge> minIntervalMs
      \<and> energy > prev bd
      \<and> energy > ema (snd (update energy tMs sens01 minIntervalMs bd))
                  + sens_k sens01 * (dev (snd (update energy tMs sens01 minIntervalMs bd)) * 1.10 + sens_base sens01)
      \<and> energy > sens_gate sens01)
   \<and> lastBeat (snd (update energy tMs sens01 minIntervalMs bd)) =
       (if fst (update energy tMs sens01 minIntervalMs bd) then tMs else lastBeat bd)
   \<and> ema (snd (update energy tMs sens01 minIntervalMs bd)) = ema bd + 0.06 * (energy - ema bd)
   \<and> dev (snd (update energy tMs sens01 minIntervalMs bd)) =
       dev bd + 0.06 * (\<bar>energy - ema (snd (update energy tMs sens01 minIntervalMs bd))\<bar> - dev bd)
   \<and> lastThr (snd (update energy tMs sens01 minIntervalMs bd)) =
       ema (snd (update energy tMs sens01 minIntervalMs bd))
         + sens_k sens01 * (dev (snd (update energy tMs sens01 minIntervalMs bd)) * 1.10 + sens_base sens01)"
  by (simp add: update_def Let_def sens_k_def sens_base_def sens_gate_def)

lemma feed_Cons:
  "feed ((e, t, s, mi) # rest) bd =
     (fst (update e t s mi bd) # fst (feed rest (snd (update e t s mi bd))),
      snd (feed rest (snd (update e t s mi bd))))"
  by (simp add: case_prod_beta)

lemma feed_snoc:
  "snd (feed (xs @ [(e, t, s, mi)]) bd) = snd (update e t s mi (snd (feed xs bd)))"
proof (induction xs arbitrary: bd)
  case Nil
  show ?case by (simp add: feed_Cons del: feed.simps(2))
next
  case (Cons x xs)
  obtain e1 t1 s1 m1 where x: "x = (e1, t1, s1, m1)" by (cases x)
  show ?case using Cons.IH by (simp add: x feed_Cons del: feed.simps(2))
qed

lemma samples_snoc: "samples s mi (h @ [(e, t)]) = samples s mi h @ [(e, t, s, mi)]"
  by (simp add: samples_def)

lemma feed_samples_ema_dev:
  "ema bd1 = ema bd2 \<Longrightarrow> dev bd1 = dev bd2 \<Longrightarrow>
   ema (snd (feed (samples s1 mi1 h) bd1)) = ema (snd (feed (samples s2 mi2 h) bd2))
   \<and> dev (snd (feed (samples s1 mi1 h) bd1)) = dev (snd (feed (samples s2 mi2 h) bd2))"
proof (induction h arbitrary: bd1 bd2)
  case Nil
  then show ?case by (simp add: samples_def)
next
  case (Cons x h)
  obtain e t where x: "x = (e, t)" by (cases x)
  let ?b1 = "snd (update e t s1 mi1 bd1)" and ?b2 = "snd (update e t s2 mi2 bd2)"
  have "ema ?b1 = ema ?b2" "dev ?b1 = dev ?b2"
    using Cons.prems by (simp_all add: update_ema update_dev)
  from Cons.IH [OF this] show ?case
    by (simp add: x samples_def feed_Cons del: feed.simps(2))
qed

lemma feed_dev_nonneg: "0 \<le> dev bd \<Longrightarrow> 0 \<le> dev (snd (feed xs bd))"
proof (induction xs arbitrary: bd)
  case Nil
  then show ?case by simp
next
  case (Cons x xs)
  obtain e t s mi where x: "x = (e, t, s, mi)" by (cases x)
  have "0 \<le> dev (snd (update e t s mi bd))"
    using Cons.prems by (rule update_dev_nonneg)
  from Cons.IH [OF this] show ?case
    by (simp add: x feed_Cons del: feed.simps(2))
qed

lemma feed_zero_no_hit:
  "prev bd = 0 \<Longrightarrow>
   fst (feed (map (\<lambda>tMs. (0, tMs, sens01, minIntervalMs)) ts) bd) = replicate (length ts) False"
proof (induction ts arbitrary: bd)
  case Nil
  then show ?case by simp
next
  case (Cons t ts)
  have nohit: "\<not> fst (update 0 t sens01 minIntervalMs bd)"
    using Cons.prems by (simp add: update_def Let_def)
  have "prev (snd (update 0 t sens01 minIntervalMs bd)) = 0"
    by (simp add: update_prev)
  from Cons.IH [OF this] nohit show ?case
    by (simp add: feed_Cons del: feed.simps(2))
qed

text \<open>
  C4. Two detectors start from the constructor's state and receive the same non-empty
  history of \<open>(energy, tMs)\<close> samples, one always at sensitivity 1.0 and the other always
  at 0.0 (each with any minimum interval). After the last call the threshold \<open>lastThr\<close>
  of the first is strictly below that of the second.
\<close>

theorem threshold_lower_at_high_sensitivity:
  assumes "hist \<noteq> []"
  shows "lastThr (snd (feed (samples 1 mi1 hist) new_BeatDetector))
         < lastThr (snd (feed (samples 0 mi0 hist) new_BeatDetector))"
proof -
  from assms obtain h e t where hist: "hist = h @ [(e, t)]"
    by (cases hist rule: rev_cases) auto
  let ?b1 = "snd (feed (samples 1 mi1 h) new_BeatDetector)"
  let ?b0 = "snd (feed (samples 0 mi0 h) new_BeatDetector)"
  let ?u1 = "snd (update e t 1 mi1 ?b1)" and ?u0 = "snd (update e t 0 mi0 ?b0)"
  have same: "ema ?b1 = ema ?b0" "dev ?b1 = dev ?b0"
    using feed_samples_ema_dev [of new_BeatDetector new_BeatDetector 1 mi1 h 0 mi0] by simp_all
  have "0 \<le> dev new_BeatDetector" by (simp add: new_BeatDetector_def reset_def)
  then have "0 \<le> dev ?b0" by (rule feed_dev_nonneg)
  then have d0: "0 \<le> dev ?u0" by (rule update_dev_nonneg)
  have e10: "ema ?u1 = ema ?u0" and d10: "dev ?u1 = dev ?u0"
    using same by (simp_all add: update_ema update_dev)
  have k1: "sens_k 1 = 0.6" "sens_base 1 = 0.008"
    by (simp_all add: sens_k_def sens_base_def lerp_def clamp_def)
  have k0: "sens_k 0 = 2.2" "sens_base 0 = 0.030"
    by (simp_all add: sens_k_def sens_base_def lerp_def clamp_def)
  have t1: "lastThr ?u1 = ema ?u0 + 0.6 * (dev ?u0 * 1.10 + 0.008)"
    using update_lastThr [of e t 1 mi1 ?b1] by (simp only: e10 d10 k1)
  have t0: "lastThr ?u0 = ema ?u0 + 2.2 * (dev ?u0 * 1.10 + 0.030)"
    using update_lastThr [of e t 0 mi0 ?b0] by (simp only: k0)
  have "lastThr ?u1 < lastThr ?u0"
    unfolding t1 t0 using d0 by simp
  then show ?thesis
    by (simp only: hist samples_snoc feed_snoc)
qed

theorem threshold_lower_at_high_sensitivity_witness:
  "[(0.12, 0)] \<noteq> ([] :: (real \<times> real) list)
   \<and> lastThr (snd (feed (samples 1 0 [(0.12, 0)]) new_BeatDetector))
     < lastThr (snd (feed (samples 0 0 [(0.12, 0)]) new_BeatDetector))"
  using threshold_lower_at_high_sensitivity [of "[(0.12, 0)]" 0 0] by simp

text \<open>
  C5. A detector that has just been reset is fed the energy 0 on every call, at any
  timestamps, with any sensitivity and any minimum interval. No call returns true,
  whatever the number of calls (200 in particular); the model has no special case and no
  error branch for it.
\<close>

theorem flat_zero_never_fires:
  "fst (feed (map (\<lambda>tMs. (0, tMs, sens01, minIntervalMs)) ts) (reset bd))
     = replicate (length ts) False"
  by (rule feed_zero_no_hit) (simp add: reset_def)

section \<open>What drawing leaves alone\<close>

text \<open>
  A drawing helper changes the context and nothing else: \<open>h s = s\<lparr>ctx := painted h s\<rparr>\<close>.
  With these equations as rewrite rules a preset's body reduces to the updates it makes to
  the script's variables.
\<close>

lemma globals_ctx [simp]: "globals (s\<lparr>ctx := cv\<rparr>) = globals s"
  by (simp add: globals_def)

lemma paintedI: "globals (f s) = globals s \<Longrightarrow> f s = s\<lparr>ctx := painted f s\<rparr>"
proof -
  assume "globals (f s) = globals s"
  then have "(globals (f s))\<lparr>ctx := ctx (f s)\<rparr> = (globals s)\<lparr>ctx := ctx (f s)\<rparr>"
    by simp
  then show "f s = s\<lparr>ctx := painted f s\<rparr>"
    by (simp add: globals_def painted_def)
qed

lemma fold_globals:
  "(\<And>x s. globals (f x s) = globals s) \<Longrightarrow> globals (fold f xs s) = globals s"
  by (induction xs arbitrary: s) simp_all

lemma ctx_call_p: "ctx_call c s = s\<lparr>ctx := painted (ctx_call c) s\<rparr>"
  by (rule paintedI) (simp add: ctx_call_def)

lemma ctx_calls_p: "ctx_calls cs s = s\<lparr>ctx := painted (ctx_calls cs) s\<rparr>"
  by (rule paintedI) (simp add: ctx_calls_def fold_globals ctx_call_def)

lemma fold_p:
  "(\<And>x s. globals (f x s) = globals s) \<Longrightarrow> fold f xs s = s\<lparr>ctx := painted (fold f xs) s\<rparr>"
  by (rule paintedI) (rule fold_globals)

lemma for_count_p:
  "(\<And>x s. globals (f x s) = globals s) \<Longrightarrow>
   for_count n f s = s\<lparr>ctx := painted (for_count n f) s\<rparr>"
  by (rule paintedI) (simp add: for_count_def fold_globals)

lemma for_below_p:
  "(\<And>x s. globals (f x s) = globals s) \<Longrightarrow>
   for_below b f s = s\<lparr>ctx := painted (for_below b f) s\<rparr>"
  by (rule paintedI) (simp add: for_below_def fold_globals)

lemma for_range_p:
  "(\<And>x s. globals (f x s) = globals s) \<Longrightarrow>
   for_range lo hi f s = s\<lparr>ctx := painted (for_range lo hi f) s\<rparr>"
  by (rule paintedI) (simp add: for_range_def fold_globals)

lemmas prim_p = ctx_call_p ctx_calls_p fold_p for_count_p for_below_p for_range_p

lemma setFillColor_p: "setFillColor col s = s\<lparr>ctx := painted (setFillColor col) s\<rparr>"
  by (rule paintedI) (simp add: setFillColor_def prim_p)

lemma setStrokeColor_p: "setStrokeColor col s = s\<lparr>ctx := painted (setStrokeColor col) s\<rparr>"
  by (rule paintedI) (simp add: setStrokeColor_def prim_p)

lemma fillCircleWorld_p: "fillCircleWorld x y r s = s\<lparr>ctx := painted (fillCircleWorld x y r) s\<rparr>"
  by (rule paintedI) (simp add: fillCircleWorld_def prim_p)

lemma strokeLineWorld_p:
  "strokeLineWorld x1 y1 x2 y2 s = s\<lparr>ctx := painted (strokeLineWorld x1 y1 x2 y2) s\<rparr>"
  by (rule paintedI) (simp add: strokeLineWorld_def prim_p)

lemma strokeRectCenteredWorld_p:
  "strokeRectCenteredWorld x y w h s = s\<lparr>ctx := painted (strokeRectCenteredWorld x y w h) s\<rparr>"
  by (rule paintedI) (simp add: strokeRectCenteredWorld_def prim_p)

lemma arcWorld_p: "arcWorld x y dm st en s = s\<lparr>ctx := painted (arcWorld x y dm st en) s\<rparr>"
  by (rule paintedI) (simp add: arcWorld_def prim_p)

lemma fillCirclesBatch_p: "fillCirclesBatch cs s = s\<lparr>ctx := painted (fillCirclesBatch cs) s\<rparr>"
  by (rule paintedI) (simp add: fillCirclesBatch_def Let_def split_def prim_p)

lemma fillTinyDotsBatch_p: "fillTinyDotsBatch ps r s = s\<lparr>ctx := painted (fillTinyDotsBatch ps r) s\<rparr>"
  by (rule paintedI) (simp add: fillTinyDotsBatch_def Let_def split_def prim_p)

lemmas world_p = setFillColor_p setStrokeColor_p fillCircleWorld_p strokeLineWorld_p
  strokeRectCenteredWorld_p arcWorld_p fillCirclesBatch_p fillTinyDotsBatch_p

lemma bar_color_p: "bar_color r s = s\<lparr>ctx := painted (bar_color r) s\<rparr>"
  by (rule paintedI) (simp add: bar_color_def world_p)

lemma cross_multi_p: "cross_multi x y s = s\<lparr>ctx := painted (cross_multi x y) s\<rparr>"
  by (rule paintedI) (simp add: cross_multi_def Let_def prim_p world_p)

lemma cross_single_p: "cross_single x y s = s\<lparr>ctx := painted (cross_single x y) s\<rparr>"
  by (rule paintedI) (simp add: cross_single_def Let_def prim_p world_p)

lemma let_state_globals:
  "globals e = c \<Longrightarrow> (\<And>x. globals x = c \<Longrightarrow> globals (f x) = c) \<Longrightarrow> globals (Let e f) = c"
  by simp

lemma let_value_globals: "(\<And>x. globals (f x) = c) \<Longrightarrow> globals (Let e f) = c"
  by simp

lemma if_globals:
  "(b \<Longrightarrow> globals x = c) \<Longrightarrow> (\<not> b \<Longrightarrow> globals y = c) \<Longrightarrow> globals (if b then x else y) = c"
  by simp

lemma ctx_calls_globals: "globals s = c \<Longrightarrow> globals (ctx_calls cs s) = c"
  by (subst ctx_calls_p) simp

lemma drawQuadLED_p: "drawQuadLED x y b s = s\<lparr>ctx := painted (drawQuadLED x y b) s\<rparr>"
proof (rule paintedI)
  show "globals (drawQuadLED x y b s) = globals s"
    unfolding drawQuadLED_def
    by (rule let_state_globals let_value_globals if_globals ctx_calls_globals refl | assumption)+
qed

lemma dash_strokes_p: "dash_strokes an sl s = s\<lparr>ctx := painted (dash_strokes an sl) s\<rparr>"
  by (rule paintedI) (simp add: dash_strokes_def Let_def prim_p world_p)

lemma restore_line_p:
  "restore_line pc pj pd po s = s\<lparr>ctx := painted (restore_line pc pj pd po) s\<rparr>"
  by (rule paintedI) (simp add: restore_line_def prim_p)

lemmas draw_p = prim_p world_p bar_color_p cross_multi_p cross_single_p drawQuadLED_p
  dash_strokes_p restore_line_p

lemmas exec = draw_p Let_def split_def nowMs_def Math_random_def

section \<open>The rotation angles of presets 33 and 34\<close>

lemma spins_upd [simp]:
  "spins (s\<lparr>ctx := cv\<rparr>) = spins s"
  "spins (s\<lparr>var_a := xa\<rparr>) = spins s"
  "spins (s\<lparr>var_b := xb\<rparr>) = spins s"
  "spins (s\<lparr>var_c := xc\<rparr>) = spins s"
  "spins (s\<lparr>var_d := xd\<rparr>) = spins s"
  "spins (s\<lparr>var_v := xv\<rparr>) = spins s"
  "spins (s\<lparr>var_m := xm\<rparr>) = spins s"
  "spins (s\<lparr>timeRand := xt\<rparr>) = spins s"
  "spins (s\<lparr>ranX := rx\<rparr>) = spins s"
  "spins (s\<lparr>ranY := ry\<rparr>) = spins s"
  "spins (s\<lparr>spotlight := sl\<rparr>) = spins s"
  "spins (s\<lparr>presetNumber := pn\<rparr>) = spins s"
  "spins (s\<lparr>rndCount := rc\<rparr>) = spins s"
  "spins (s\<lparr>clockCount := cc\<rparr>) = spins s"
  by (simp_all add: spins_def)

lemma fold_spins:
  "(\<And>x s. spins (f x s) = spins s) \<Longrightarrow> spins (fold f xs s) = spins s"
  by (induction xs arbitrary: s) simp_all

lemma for_count_spins:
  "(\<And>x s. spins (f x s) = spins s) \<Longrightarrow> spins (for_count n f s) = spins s"
  by (simp add: for_count_def fold_spins)

lemma for_below_spins:
  "(\<And>x s. spins (f x s) = spins s) \<Longrightarrow> spins (for_below b f s) = spins s"
  by (simp add: for_below_def fold_spins)

lemma for_range_spins:
  "(\<And>x s. spins (f x s) = spins s) \<Longrightarrow> spins (for_range lo hi f s) = spins s"
  by (simp add: for_range_def fold_spins)

lemmas loop_spins = fold_spins for_count_spins for_below_spins for_range_spins

lemma refresh_ran_spins: "spins (refresh_ran w h n s) = spins s"
  by (simp add: refresh_ran_def exec loop_spins)

lemma initDiscoball_spins: "spins (initDiscoball s) = spins s"
  by (simp add: initDiscoball_def exec loop_spins)

lemma fold_acc_spins:
  "(\<And>x acc. spins (snd (snd (f x acc))) = spins (snd (snd acc))) \<Longrightarrow>
   spins (snd (snd (fold f xs acc))) = spins (snd (snd acc))"
  by (induction xs arbitrary: acc) simp_all

lemma case14_spins: "spins (case14 cx cy sz tx ty s) = spins s"
proof -
  have "spins (snd (snd (for_count n
          (\<lambda>i (circlesA, circlesB, s).
              (let k = i mod length (spotlight s);
                   ((x, y, r), ball) = step s (spotlight s ! k);
                   s = s\<lparr>spotlight := (spotlight s)[k := ball]\<rparr>;
                   cxp = x + tx;
                   cyp = y + ty;
                   rr = r
               in if multiColor s \<and> odd i then (circlesA, circlesB @ [(cxp, cyp, rr)], s)
                  else (circlesA @ [(cxp, cyp, rr)], circlesB, s))) ([], [], s)))) = spins s" for n
    unfolding for_count_def
    by (subst fold_acc_spins) (simp_all add: Let_def split_def)
  then show ?thesis
    by (simp add: case14_def exec)
qed

lemma cases_spins_a:
  "spins (case0 cx cy sz tx ty s) = spins s"
  "spins (case1 cx cy sz tx ty s) = spins s"
  "spins (case2 cx cy sz tx ty s) = spins s"
  "spins (case3 cx cy sz tx ty s) = spins s"
  "spins (case4 cx cy sz tx ty s) = spins s"
  "spins (case5 cx cy sz tx ty s) = spins s"
  "spins (case6 cx cy sz tx ty s) = spins s"
  "spins (case7 cx cy sz tx ty s) = spins s"
  "spins (case8 cx cy sz tx ty s) = spins s"
  "spins (case9 cx cy sz tx ty s) = spins s"
  "spins (case10 cx cy sz tx ty s) = spins s"
  "spins (case11 cx cy sz tx ty s) = spins s"
  "spins (case12 cx cy sz tx ty s) = spins s"
  "spins (case13 cx cy sz tx ty s) = spins s"
  by (simp_all add: case0_def case1_def case2_def case3_def case4_def case5_def case6_def
      case7_def case8_def case9_def case10_def case11_def case12_def case13_def
      exec loop_spins refresh_ran_spins)

lemma cases_spins_b:
  "spins (case15 cx cy sz tx ty s) = spins s"
  "spins (case16 cx cy sz tx ty s) = spins s"
  "spins (case17 cx cy sz tx ty s) = spins s"
  "spins (case18 cx cy sz tx ty s) = spins s"
  "spins (case19 cx cy sz tx ty s) = spins s"
  "spins (case20 cx cy sz tx ty s) = spins s"
  "spins (case21 cx cy sz tx ty s) = spins s"
  "spins (case22 cx cy sz tx ty s) = spins s"
  "spins (case23 cx cy sz tx ty s) = spins s"
  "spins (case24 cx cy sz tx ty s) = spins s"
  "spins (case25 cx cy sz tx ty s) = spins s"
  by (simp_all add: case15_def case16_def case17_def case18_def case19_def case20_def case21_def
      case22_def case23_def case24_def case25_def exec loop_spins)

lemma cases_spins_c:
  "spins (case26 cx cy sz tx ty s) = spins s"
  "spins (case27 cx cy sz tx ty s) = spins s"
  "spins (case28 cx cy sz tx ty s) = spins s"
  "spins (case29 cx cy sz tx ty s) = spins s"
  "spins (case30 cx cy sz tx ty s) = spins s"
  "spins (case31 cx cy sz tx ty s) = spins s"
  "spins (case32 cx cy sz tx ty s) = spins s"
  by (simp_all add: case26_def case27_def case28_def case29_def case30_def case31_def case32_def
      exec loop_spins)

lemma case33_spins:
  "spins (case33 cx cy sz tx ty s) = (sqSpin s + (presetSpeed s / 60000) * 20, triSpin s)"
  by (simp add: case33_def exec spins_def)

lemma case34_spins:
  "spins (case34 cx cy sz tx ty s) = (sqSpin s, triSpin s + (presetSpeed s / 60000) * 20)"
  by (simp add: case34_def exec spins_def)

lemmas cases_spins = cases_spins_a case14_spins cases_spins_b cases_spins_c

lemma drawPreset_spins:
  "spins (drawPreset idx fts motion s) =
     (if onoff s \<and> idx = 33 then (sqSpin s + (presetSpeed s / 60000) * 20, triSpin s)
      else if onoff s \<and> idx = 34 then (sqSpin s, triSpin s + (presetSpeed s / 60000) * 20)
      else spins s)"
  by (simp add: drawPreset_def Let_def cases_spins case33_spins case34_spins)

lemma selectPreset_spins: "spins (selectPreset idx user s) = spins s"
  by (simp add: selectPreset_def Let_def split_def Math_random_def initDiscoball_spins)

section \<open>The master enable flag\<close>

text \<open>
  C2. With \<open>onoff\<close> false, \<open>drawPreset\<close> returns the state it was given, for every
  preset index, audio features and motion offset: no call reaches the drawing context and
  \<open>v\<close>, \<open>m\<close>, \<open>a\<close>, \<open>b_\<close>, \<open>c\<close>, \<open>d\<close>, \<open>timeRand\<close>, \<open>ranX\<close>, \<open>ranY\<close>,
  \<open>_sqSpin\<close>, \<open>_triSpin\<close> and the spotlights are as before. The end of \<open>loop()\<close>
  does not even call it.
\<close>

theorem drawPreset_off_is_noop:
  assumes "\<not> onoff s"
  shows "drawPreset idx fts motion s = s \<and> loop_draw fts motion s = s"
  using assms by (simp add: drawPreset_def loop_draw_def Let_def)

theorem drawPreset_off_is_noop_witness:
  "\<not> onoff (example_state\<lparr>onoff := False\<rparr>)
   \<and> drawPreset 16 no_feats (3, 4) (example_state\<lparr>onoff := False\<rparr>) = example_state\<lparr>onoff := False\<rparr>
   \<and> loop_draw no_feats (3, 4) (example_state\<lparr>onoff := False\<rparr>) = example_state\<lparr>onoff := False\<rparr>"
  using drawPreset_off_is_noop [of "example_state\<lparr>onoff := False\<rparr>" 16 no_feats "(3, 4)"]
  by simp

section \<open>Selecting a preset: properties\<close>

lemma presetCount_35: "presetCount = 35"
  by (simp add: presetCount_def presetNames_def)

lemma fold_presetNumber:
  "(\<And>x s. presetNumber (f x s) = presetNumber s) \<Longrightarrow> presetNumber (fold f xs s) = presetNumber s"
  by (induction xs arbitrary: s) simp_all

lemma initDiscoball_presetNumber: "presetNumber (initDiscoball s) = presetNumber s"
  by (simp add: initDiscoball_def for_count_def fold_presetNumber Let_def split_def Math_random_def)

lemma selectPreset_presetNumber:
  "presetNumber (selectPreset idx user s) = clamp idx 0 (presetCount - 1)"
  by (simp add: selectPreset_def Let_def split_def Math_random_def initDiscoball_presetNumber)

text \<open>
  C10. \<open>selectPreset(idx)\<close> clamps every integer \<open>idx\<close> into \<open>0 .. presetCount() - 1\<close>
  and makes the clamped value the active preset: afterwards \<open>presetNumber\<close> is that value
  and so lies in the valid range; 999 gives the last preset and -5 gives preset 0. The
  function is total (no argument is rejected), and when the clamped value is the preset
  already active the state is returned unchanged.
\<close>

theorem selectPreset_clamps:
  "presetNumber (selectPreset idx user s) = clamp idx 0 (presetCount - 1)
   \<and> 0 \<le> presetNumber (selectPreset idx user s)
   \<and> presetNumber (selectPreset idx user s) \<le> presetCount - 1
   \<and> presetNumber (selectPreset 999 user s) = presetCount - 1
   \<and> presetNumber (selectPreset (- 5) user s) = 0
   \<and> (clamp idx 0 (presetCount - 1) = presetNumber s \<longrightarrow> selectPreset idx user s = s)"
  by (simp add: selectPreset_presetNumber presetCount_35 clamp_def)
     (simp add: selectPreset_def presetCount_35 clamp_def)

theorem selectPreset_clamps_witness:
  "clamp 0 0 (presetCount - 1) = presetNumber example_state
   \<and> selectPreset 0 False example_state = example_state
   \<and> presetNumber (selectPreset 999 False example_state) = 34"
  using selectPreset_clamps [of 0 False example_state]
  by (simp add: presetCount_35 clamp_def example_state_def)

section \<open>The rotation angles: properties\<close>

text \<open>
  C8, as the code has it. \<open>_sqSpin\<close> advances by \<open>(presetSpeed / 60000) * 20\<close> in a
  frame that draws preset 33 and \<open>_triSpin\<close> by the same amount in a frame that draws
  preset 34; a frame of any other preset, a frame with \<open>onoff\<close> false and
  \<open>selectPreset\<close> leave both as they are. The angles persist across preset switches;
  they do not run while another preset is displayed.
\<close>

theorem spin_angles_advance_only_in_own_preset:
  "sqSpin (drawPreset idx fts motion s) =
     (if onoff s \<and> idx = 33 then sqSpin s + (presetSpeed s / 60000) * 20 else sqSpin s)
   \<and> triSpin (drawPreset idx fts motion s) =
     (if onoff s \<and> idx = 34 then triSpin s + (presetSpeed s / 60000) * 20 else triSpin s)
   \<and> sqSpin (selectPreset idx user s) = sqSpin s
   \<and> triSpin (selectPreset idx user s) = triSpin s"
  using drawPreset_spins [of idx fts motion s] selectPreset_spins [of idx user s]
  by (auto simp add: spins_def split: if_splits)

text \<open>
  The claim of C8 as stated fails: one frame of preset 0 at speed 30 leaves \<open>_sqSpin\<close>
  and \<open>_triSpin\<close> at 0, where a free-running angle would have reached 0.01.
\<close>

theorem spin_angles_do_not_free_run:
  "sqSpin (drawPreset 0 no_feats (0, 0) example_state)
     \<noteq> sqSpin example_state + (presetSpeed example_state / 60000) * 20
   \<and> triSpin (drawPreset 0 no_feats (0, 0) example_state)
     \<noteq> triSpin example_state + (presetSpeed example_state / 60000) * 20"
  using drawPreset_spins [of 0 no_feats "(0, 0)" example_state]
  by (simp add: spins_def example_state_def)

section \<open>States that differ in the drawing context only\<close>

lemma globals_eqD: "globals x = y \<Longrightarrow> x = y\<lparr>ctx := ctx x\<rparr>"
  by (auto simp add: globals_def)

lemma fold_keeps: "(\<And>x s. g (f x s) = g s) \<Longrightarrow> g (fold f xs s) = g s"
  by (induction xs arbitrary: s) simp_all


lemma scroll_step_m:
  "globals (if var_m (s\<lparr>var_m := x\<rparr>) \<ge> e - 50 then (s\<lparr>var_m := x\<rparr>)\<lparr>var_m := - 50\<rparr> else s\<lparr>var_m := x\<rparr>)
     = (globals s)\<lparr>var_m := (if x \<ge> e - 50 then - 50 else x)\<rparr>"
  by (simp add: globals_def)

lemma case16_globals:
  "globals (case16 cx cy sz tx ty s) =
     (globals s)\<lparr>var_m := (if var_m s + presetSpeed s / 3 \<ge> visualW s / DPR s - 50 then - 50
                            else var_m s + presetSpeed s / 3)\<rparr>"
  by (simp add: case16_def exec globals_def)

lemma case17_globals:
  "globals (case17 cx cy sz tx ty s) =
     (globals s)\<lparr>var_m := (if var_m s + presetSpeed s / 3 \<ge> H s / DPR s - 50 then - 50
                            else var_m s + presetSpeed s / 3)\<rparr>"
  by (simp add: case17_def exec globals_def)

lemma case18_globals:
  "globals (case18 cx cy sz tx ty s) =
     (globals s)\<lparr>var_v := var_v s + presetSpeed s / 5000,
                 var_m := (if var_m s + presetSpeed s / 4 \<ge> visualW s / DPR s - 50 then - 50
                           else var_m s + presetSpeed s / 4)\<rparr>"
  by (simp add: case18_def exec globals_def)

lemma case19_globals:
  "globals (case19 cx cy sz tx ty s) =
     (globals s)\<lparr>var_v := var_v s + presetSpeed s / 5000,
                 var_m := (if var_m s + presetSpeed s / 4 \<ge> H s / DPR s - 50 then - 50
                           else var_m s + presetSpeed s / 4)\<rparr>"
  by (simp add: case19_def exec globals_def)

lemma case22_globals:
  "globals (case22 cx cy sz tx ty s) =
     (globals s)\<lparr>var_v := var_v s + presetSpeed s / 3000,
                 var_m := (if var_m s + 1 \<ge> visualW s / DPR s - 50 then - 50 else var_m s + 1)\<rparr>"
  by (simp add: case22_def exec globals_def)

section \<open>The scroll accumulator\<close>

lemma scroll_frame_globals:
  assumes "idx = 16 \<or> idx = 17" "onoff s"
  shows "globals (drawPreset idx fts motion s) =
     (globals s)\<lparr>var_m := (if var_m s + presetSpeed s / 3 \<ge> scroll_extent idx s - 50 then - 50
                            else var_m s + presetSpeed s / 3)\<rparr>"
proof -
  from assms(1) show ?thesis
  proof
    assume "idx = 16"
    then show ?thesis
      using assms(2) by (simp add: drawPreset_def Let_def case16_globals scroll_extent_def)
  next
    assume "idx = 17"
    then show ?thesis
      using assms(2) by (simp add: drawPreset_def Let_def case17_globals scroll_extent_def)
  qed
qed

lemma scroll_frame_globals_v:
  assumes "idx = 18 \<or> idx = 19 \<or> idx = 22" "onoff s"
  shows "\<exists>v'. globals (drawPreset idx fts motion s) =
     (globals s)\<lparr>var_v := v',
                 var_m := (if var_m s + scroll_step idx s \<ge> scroll_extent idx s - 50 then - 50
                           else var_m s + scroll_step idx s)\<rparr>"
proof -
  from assms(1) consider "idx = 18" | "idx = 19" | "idx = 22" by blast
  then show ?thesis
  proof cases
    case 1
    then show ?thesis
      using assms(2)
      by (intro exI [of _ "var_v s + presetSpeed s / 5000"])
        (simp add: drawPreset_def Let_def case18_globals scroll_extent_def scroll_step_def)
  next
    case 2
    then show ?thesis
      using assms(2)
      by (intro exI [of _ "var_v s + presetSpeed s / 5000"])
        (simp add: drawPreset_def Let_def case19_globals scroll_extent_def scroll_step_def)
  next
    case 3
    then show ?thesis
      using assms(2)
      by (intro exI [of _ "var_v s + presetSpeed s / 3000"])
        (simp add: drawPreset_def Let_def case22_globals scroll_extent_def scroll_step_def)
  qed
qed

lemma globals_m_fields:
  assumes "globals x = (globals s)\<lparr>var_m := m'\<rparr>"
  shows "var_m x = m'" "onoff x = onoff s" "visualW x = visualW s" "H x = H s" "DPR x = DPR s"
  using arg_cong [OF assms, of var_m] arg_cong [OF assms, of onoff]
    arg_cong [OF assms, of visualW] arg_cong [OF assms, of H] arg_cong [OF assms, of DPR]
  by (simp_all add: globals_def)

lemma globals_vm_fields:
  assumes "globals x = (globals s)\<lparr>var_v := v', var_m := m'\<rparr>"
  shows "var_m x = m'" "onoff x = onoff s" "visualW x = visualW s" "H x = H s" "DPR x = DPR s"
  using arg_cong [OF assms, of var_m] arg_cong [OF assms, of onoff]
    arg_cong [OF assms, of visualW] arg_cong [OF assms, of H] arg_cong [OF assms, of DPR]
  by (simp_all add: globals_def)

lemma scroll_frame_m:
  assumes idx: "idx = 16 \<or> idx = 17 \<or> idx = 18 \<or> idx = 19 \<or> idx = 22" and on: "onoff s"
  shows "var_m (drawPreset idx fts motion s) =
           (if var_m s + scroll_step idx s \<ge> scroll_extent idx s - 50 then - 50
            else var_m s + scroll_step idx s)"
    and "onoff (drawPreset idx fts motion s) = onoff s"
    and "visualW (drawPreset idx fts motion s) = visualW s"
    and "H (drawPreset idx fts motion s) = H s"
    and "DPR (drawPreset idx fts motion s) = DPR s"
proof -
  let ?m' = "if var_m s + scroll_step idx s \<ge> scroll_extent idx s - 50 then - 50
             else var_m s + scroll_step idx s"
  from idx consider "idx = 16 \<or> idx = 17" | "idx = 18 \<or> idx = 19 \<or> idx = 22" by blast
  then have "var_m (drawPreset idx fts motion s) = ?m'
      \<and> onoff (drawPreset idx fts motion s) = onoff s
      \<and> visualW (drawPreset idx fts motion s) = visualW s
      \<and> H (drawPreset idx fts motion s) = H s
      \<and> DPR (drawPreset idx fts motion s) = DPR s"
  proof cases
    case 1
    then have st: "scroll_step idx s = presetSpeed s / 3"
      by (auto simp add: scroll_step_def)
    have "globals (drawPreset idx fts motion s) = (globals s)\<lparr>var_m := ?m'\<rparr>"
      using scroll_frame_globals [OF 1 on, of fts motion] by (simp add: st)
    from globals_m_fields [OF this] show ?thesis by simp
  next
    case 2
    from scroll_frame_globals_v [OF 2 on, of fts motion] obtain v' where
      "globals (drawPreset idx fts motion s) = (globals s)\<lparr>var_v := v', var_m := ?m'\<rparr>"
      by blast
    from globals_vm_fields [OF this] show ?thesis by simp
  qed
  then show "var_m (drawPreset idx fts motion s) = ?m'"
    and "onoff (drawPreset idx fts motion s) = onoff s"
    and "visualW (drawPreset idx fts motion s) = visualW s"
    and "H (drawPreset idx fts motion s) = H s"
    and "DPR (drawPreset idx fts motion s) = DPR s"
    by simp_all
qed

lemma scroll_step_bounds:
  assumes "0 \<le> presetSpeed s"
  shows "0 \<le> scroll_step idx s"
  using assms by (simp add: scroll_step_def)

lemma scroll_frame_step:
  assumes idx: "idx = 16 \<or> idx = 17 \<or> idx = 18 \<or> idx = 19 \<or> idx = 22" and on: "onoff s"
    and ext: "0 < scroll_extent idx s" and m: "- 50 \<le> var_m s" and sp: "0 \<le> speed"
  shows "onoff (drawPreset idx fts motion (s\<lparr>presetSpeed := speed\<rparr>))
         \<and> scroll_extent idx (drawPreset idx fts motion (s\<lparr>presetSpeed := speed\<rparr>)) = scroll_extent idx s
         \<and> - 50 \<le> var_m (drawPreset idx fts motion (s\<lparr>presetSpeed := speed\<rparr>))
         \<and> var_m (drawPreset idx fts motion (s\<lparr>presetSpeed := speed\<rparr>)) < scroll_extent idx s - 50"
proof -
  let ?s = "s\<lparr>presetSpeed := speed\<rparr>"
  let ?s' = "drawPreset idx fts motion ?s"
  have on0: "onoff ?s" using on by simp
  have e0: "scroll_extent idx ?s = scroll_extent idx s"
    by (simp add: scroll_extent_def)
  have st: "0 \<le> scroll_step idx ?s"
    using sp by (intro scroll_step_bounds) simp
  have m': "var_m ?s' = (if var_m s + scroll_step idx ?s \<ge> scroll_extent idx s - 50 then - 50
                         else var_m s + scroll_step idx ?s)"
    using scroll_frame_m(1) [OF idx on0, of fts motion] by (simp add: e0)
  have on': "onoff ?s' = onoff s"
    using scroll_frame_m(2) [OF idx on0, of fts motion] by simp
  have w': "visualW ?s' = visualW s"
    using scroll_frame_m(3) [OF idx on0, of fts motion] by simp
  have h': "H ?s' = H s"
    using scroll_frame_m(4) [OF idx on0, of fts motion] by simp
  have d': "DPR ?s' = DPR s"
    using scroll_frame_m(5) [OF idx on0, of fts motion] by simp
  have e': "scroll_extent idx ?s' = scroll_extent idx s"
    using w' h' d' by (simp add: scroll_extent_def)
  show ?thesis
    using on ext m st by (simp add: m' on' e')
qed

lemma scroll_frames_invariant:
  assumes idx: "idx = 16 \<or> idx = 17 \<or> idx = 18 \<or> idx = 19 \<or> idx = 22"
  shows "onoff s \<Longrightarrow> scroll_extent idx s = e \<Longrightarrow> 0 < e \<Longrightarrow> - 50 \<le> var_m s \<Longrightarrow> var_m s < e - 50 \<Longrightarrow>
         \<forall>x \<in> set inputs. 0 \<le> fst x \<and> fst x \<le> 100 \<Longrightarrow>
         - 50 \<le> var_m (scroll_frames idx inputs s) \<and> var_m (scroll_frames idx inputs s) < e - 50"
proof (induction inputs arbitrary: s)
  case Nil
  then show ?case by simp
next
  case (Cons x inputs)
  obtain speed fts motion where x: "x = (speed, fts, motion)" by (cases x)
  let ?s' = "drawPreset idx fts motion (s\<lparr>presetSpeed := speed\<rparr>)"
  have sp: "0 \<le> speed" using Cons.prems(6) by (simp add: x)
  have ext: "0 < scroll_extent idx s" using Cons.prems by simp
  have step: "onoff ?s' \<and> scroll_extent idx ?s' = scroll_extent idx s
              \<and> - 50 \<le> var_m ?s' \<and> var_m ?s' < scroll_extent idx s - 50"
    using scroll_frame_step [OF idx Cons.prems(1) ext Cons.prems(4) sp] .
  have "- 50 \<le> var_m (scroll_frames idx inputs ?s') \<and> var_m (scroll_frames idx inputs ?s') < e - 50"
    using step Cons.prems by (intro Cons.IH) simp_all
  then show ?case by (simp add: x)
qed

lemma scroll_frames_range:
  assumes idx: "idx = 16 \<or> idx = 17 \<or> idx = 18 \<or> idx = 19 \<or> idx = 22" and on: "onoff s"
    and ext: "0 < scroll_extent idx s" and m: "- 50 \<le> var_m s"
    and ne: "inputs \<noteq> []" and sps: "\<forall>x \<in> set inputs. 0 \<le> fst x \<and> fst x \<le> 100"
  shows "- 50 \<le> var_m (scroll_frames idx inputs s)
         \<and> var_m (scroll_frames idx inputs s) < scroll_extent idx s - 50"
proof -
  from ne obtain x rest where inputs: "inputs = x # rest" by (cases inputs) auto
  obtain speed fts motion where x: "x = (speed, fts, motion)" by (cases x)
  let ?s' = "drawPreset idx fts motion (s\<lparr>presetSpeed := speed\<rparr>)"
  have sp: "0 \<le> speed" using sps by (simp add: inputs x)
  have step: "onoff ?s' \<and> scroll_extent idx ?s' = scroll_extent idx s
              \<and> - 50 \<le> var_m ?s' \<and> var_m ?s' < scroll_extent idx s - 50"
    using scroll_frame_step [OF idx on ext m sp] .
  have "- 50 \<le> var_m (scroll_frames idx rest ?s')
        \<and> var_m (scroll_frames idx rest ?s') < scroll_extent idx s - 50"
    using step ext sps
    by (intro scroll_frames_invariant [OF idx]) (simp_all add: inputs)
  then show ?thesis by (simp add: inputs x)
qed

text \<open>
  C7. Presets 16, 18 and 22 scroll across the drawable width and presets 17 and 19 across
  the drawable height (\<open>scroll_extent\<close>, in world units). A drawn frame of any of them
  adds the preset's step to \<open>m\<close> (\<open>presetSpeed/3\<close> in presets 16 and 17, \<open>presetSpeed/4\<close>
  in presets 18 and 19, 1 in preset 22) and, if the sum has reached \<open>extent - 50\<close>, sets
  \<open>m\<close> to -50 instead: this is the first conjunct, for every state. Therefore, with a
  positive extent and starting with \<open>m\<close> at -50 or above (it is 0 at start-up and after
  every \<open>selectPreset\<close>), after every drawn frame of a run with speeds in \<open>[0, 100]\<close> the
  accumulator satisfies \<open>-50 \<le> m < extent - 50\<close>. The second conjunct is about the state
  after the last frame of any non-empty run, hence about the state between any two
  frames.
\<close>

theorem scroll_accumulator_in_range:
  assumes "idx = 16 \<or> idx = 17 \<or> idx = 18 \<or> idx = 19 \<or> idx = 22" and "onoff s"
  shows "var_m (drawPreset idx fts motion s) =
           (if var_m s + scroll_step idx s \<ge> scroll_extent idx s - 50 then - 50
            else var_m s + scroll_step idx s)
         \<and> (0 < scroll_extent idx s \<and> - 50 \<le> var_m s
            \<and> inputs \<noteq> [] \<and> (\<forall>x \<in> set inputs. 0 \<le> fst x \<and> fst x \<le> 100)
            \<longrightarrow> - 50 \<le> var_m (scroll_frames idx inputs s)
                \<and> var_m (scroll_frames idx inputs s) < scroll_extent idx s - 50)"
proof (intro conjI impI)
  show "var_m (drawPreset idx fts motion s) =
           (if var_m s + scroll_step idx s \<ge> scroll_extent idx s - 50 then - 50
            else var_m s + scroll_step idx s)"
    using scroll_frame_m(1) [OF assms] .
next
  assume h: "0 < scroll_extent idx s \<and> - 50 \<le> var_m s
            \<and> inputs \<noteq> [] \<and> (\<forall>x \<in> set inputs. 0 \<le> fst x \<and> fst x \<le> 100)"
  then have "- 50 \<le> var_m (scroll_frames idx inputs s)
         \<and> var_m (scroll_frames idx inputs s) < scroll_extent idx s - 50"
    using assms by (intro scroll_frames_range) simp_all
  then show "- 50 \<le> var_m (scroll_frames idx inputs s)"
    and "var_m (scroll_frames idx inputs s) < scroll_extent idx s - 50"
    by simp_all
qed

text \<open>
  The theorem at the start-up state, where one frame of preset 16 takes \<open>m\<close> from 0 to 10
  (speed 30), and at \<open>m = 1225\<close> with a drawable width of 1280, where the frame reaches
  \<open>1235 \<ge> 1230\<close> and wraps \<open>m\<close> to -50; a run of three frames from there stays in range.
  Preset 22 at the start-up state steps by 1.
\<close>

theorem scroll_accumulator_in_range_witness:
  "var_m (drawPreset 16 no_feats (0, 0) example_state) = 10
   \<and> var_m (drawPreset 16 no_feats (0, 0) (example_state\<lparr>var_m := 1225\<rparr>)) = - 50
   \<and> var_m (drawPreset 22 no_feats (0, 0) example_state) = 1
   \<and> scroll_extent 16 (example_state\<lparr>var_m := 1225\<rparr>) = 1280
   \<and> - 50 \<le> var_m (scroll_frames 16 [(30, no_feats, (0, 0)), (100, no_feats, (0, 0)), (0, no_feats, (0, 0))]
                      (example_state\<lparr>var_m := 1225\<rparr>))
   \<and> var_m (scroll_frames 16 [(30, no_feats, (0, 0)), (100, no_feats, (0, 0)), (0, no_feats, (0, 0))]
               (example_state\<lparr>var_m := 1225\<rparr>)) < 1230"
  using scroll_accumulator_in_range [of 16 example_state no_feats "(0, 0)" "[]"]
    scroll_accumulator_in_range [of 22 example_state no_feats "(0, 0)" "[]"]
    scroll_accumulator_in_range [of 16 "example_state\<lparr>var_m := 1225\<rparr>" no_feats "(0, 0)"
      "[(30, no_feats, (0, 0)), (100, no_feats, (0, 0)), (0, no_feats, (0, 0))]"]
  by (simp add: example_state_def scroll_extent_def scroll_step_def)

section \<open>Presets with random positions\<close>

lemma refresh_ran_skip:
  "clock s (clockCount s) - timeRand s < rand_interval 9.5 (presetSpeed s) \<Longrightarrow>
   refresh_ran w h n s = s\<lparr>clockCount := Suc (clockCount s)\<rparr>"
  by (simp add: refresh_ran_def Let_def split_def nowMs_def)

lemma refresh_ran_timeRand:
  "timeRand (refresh_ran w h n s) =
     (if clock s (clockCount s) - timeRand s \<ge> rand_interval 9.5 (presetSpeed s)
      then clock s (Suc (clockCount s)) else timeRand s)"
  by (simp add: refresh_ran_def Let_def split_def nowMs_def Math_random_def for_count_def
        fold_keeps [where g = timeRand])

lemma refresh_ran_presetSpeed: "presetSpeed (refresh_ran w h n s) = presetSpeed s"
  by (simp add: refresh_ran_def Let_def split_def nowMs_def Math_random_def for_count_def
        fold_keeps [where g = presetSpeed])

lemma refresh_ran_clock: "clock (refresh_ran w h n s) = clock s"
  by (simp add: refresh_ran_def Let_def split_def nowMs_def Math_random_def for_count_def
        fold_keeps [where g = clock])

lemma refresh_ran_abcd:
  "var_a (refresh_ran w h n s) = var_a s"
  "var_b (refresh_ran w h n s) = var_b s"
  "var_c (refresh_ran w h n s) = var_c s"
  "var_d (refresh_ran w h n s) = var_d s"
  by (simp_all add: refresh_ran_def Let_def split_def nowMs_def Math_random_def for_count_def
        fold_keeps [where g = var_a] fold_keeps [where g = var_b]
        fold_keeps [where g = var_c] fold_keeps [where g = var_d])

lemma map_upd_step:
  "(map (\<lambda>i. if i < n then g i else xs ! i) [0..<length xs])[n := g n]
     = map (\<lambda>i. if i < Suc n then g i else xs ! i) [0..<length xs]"
proof (rule nth_equalityI)
  show "length ((map (\<lambda>i. if i < n then g i else xs ! i) [0..<length xs])[n := g n])
        = length (map (\<lambda>i. if i < Suc n then g i else xs ! i) [0..<length xs])"
    by simp
next
  fix i
  assume "i < length ((map (\<lambda>i. if i < n then g i else xs ! i) [0..<length xs])[n := g n])"
  then have i: "i < length xs" by simp
  show "(map (\<lambda>i. if i < n then g i else xs ! i) [0..<length xs])[n := g n] ! i
        = map (\<lambda>i. if i < Suc n then g i else xs ! i) [0..<length xs] ! i"
  proof (cases "i = n")
    case True
    then show ?thesis using i by simp
  next
    case False
    then show ?thesis using i by (simp add: less_Suc_eq)
  qed
qed

lemma refresh_fold:
  assumes rc: "\<And>i s. rndCount (body i s) = rndCount s + 2"
    and rn: "\<And>i s. rnd (body i s) = rnd s"
    and ps: "\<And>i s. presetSize (body i s) = presetSize s"
    and rx: "\<And>i s. ranX (body i s) = (ranX s)[i := gx (presetSize s) (rnd s (rndCount s))]"
    and ry: "\<And>i s. ranY (body i s) = (ranY s)[i := gy (presetSize s) (rnd s (rndCount s + 1))]"
  shows "rndCount (fold body [0..<n] s) = rndCount s + 2 * n
       \<and> rnd (fold body [0..<n] s) = rnd s
       \<and> presetSize (fold body [0..<n] s) = presetSize s
       \<and> ranX (fold body [0..<n] s)
           = map (\<lambda>i. if i < n then gx (presetSize s) (rnd s (rndCount s + 2 * i)) else ranX s ! i)
               [0..<length (ranX s)]
       \<and> ranY (fold body [0..<n] s)
           = map (\<lambda>i. if i < n then gy (presetSize s) (rnd s (rndCount s + 2 * i + 1)) else ranY s ! i)
               [0..<length (ranY s)]"
proof (induction n)
  case 0
  show ?case by (simp add: map_nth)
next
  case (Suc n)
  let ?t = "fold body [0..<n] s"
  have f: "fold body [0..<Suc n] s = body n ?t" by simp
  from Suc have c: "rndCount ?t = rndCount s + 2 * n" and r: "rnd ?t = rnd s"
    and p: "presetSize ?t = presetSize s"
    and x: "ranX ?t = map (\<lambda>i. if i < n then gx (presetSize s) (rnd s (rndCount s + 2 * i)) else ranX s ! i)
               [0..<length (ranX s)]"
    and y: "ranY ?t = map (\<lambda>i. if i < n then gy (presetSize s) (rnd s (rndCount s + 2 * i + 1)) else ranY s ! i)
               [0..<length (ranY s)]"
    by simp_all
  have "rndCount (body n ?t) = rndCount s + 2 * Suc n" by (simp add: rc c)
  moreover have "rnd (body n ?t) = rnd s" by (simp add: rn r)
  moreover have "presetSize (body n ?t) = presetSize s" by (simp add: ps p)
  moreover have "ranX (body n ?t)
      = map (\<lambda>i. if i < Suc n then gx (presetSize s) (rnd s (rndCount s + 2 * i)) else ranX s ! i)
               [0..<length (ranX s)]"
    unfolding rx x c r p
    by (rule map_upd_step [of n "\<lambda>i. gx (presetSize s) (rnd s (rndCount s + 2 * i))" "ranX s"])
  moreover have "ranY (body n ?t)
      = map (\<lambda>i. if i < Suc n then gy (presetSize s) (rnd s (rndCount s + 2 * i + 1)) else ranY s ! i)
               [0..<length (ranY s)]"
    unfolding ry y c r p
    by (rule map_upd_step [of n "\<lambda>i. gy (presetSize s) (rnd s (rndCount s + 2 * i + 1))" "ranY s"])
  ultimately show ?case unfolding f by blast
qed

lemma refresh_ran_due:
  fixes w h :: real
  assumes due: "clock s (clockCount s) - timeRand s \<ge> rand_interval 9.5 (presetSpeed s)"
  shows "ranX (refresh_ran w h count s)
           = map (\<lambda>i. if i < nat count
                       then word_of_int \<lfloor>(300 - 2.7 * presetSize s) / 2
                              + rnd s (rndCount s + 2 * i) * (w - 2 * ((300 - 2.7 * presetSize s) / 2))\<rfloor>
                       else ranX s ! i) [0..<length (ranX s)]"
    and "ranY (refresh_ran w h count s)
           = map (\<lambda>i. if i < nat count
                       then word_of_int \<lfloor>(300 - 2.7 * presetSize s) / 2
                              + rnd s (rndCount s + 2 * i + 1) * (h - 2 * ((300 - 2.7 * presetSize s) / 2))\<rfloor>
                       else ranY s ! i) [0..<length (ranY s)]"
proof -
  let ?body = "\<lambda>i s.
                 (let rad = (300 - 2.7 * presetSize s) / 2;
                      (r1, s) = Math_random s;
                      s = s\<lparr>ranX := (ranX s)[i := word_of_int \<lfloor>rad + r1 * (w - 2 * rad)\<rfloor>]\<rparr>;
                      (r2, s) = Math_random s
                  in s\<lparr>ranY := (ranY s)[i := word_of_int \<lfloor>rad + r2 * (h - 2 * rad)\<rfloor>]\<rparr>)"
  let ?gx = "\<lambda>p r. (word_of_int \<lfloor>(300 - 2.7 * p) / 2 + r * (w - 2 * ((300 - 2.7 * p) / 2))\<rfloor> :: 32 word)"
  let ?gy = "\<lambda>p r. (word_of_int \<lfloor>(300 - 2.7 * p) / 2 + r * (h - 2 * ((300 - 2.7 * p) / 2))\<rfloor> :: 32 word)"
  let ?s1 = "s\<lparr>clockCount := clockCount s + 1 + 1, timeRand := clock s (clockCount s + 1)\<rparr>"
  have run: "refresh_ran w h count s = fold ?body [0..<nat count] ?s1"
    using due by (simp add: refresh_ran_def nowMs_def for_count_def Let_def split_def)
  have F: "rndCount (fold ?body [0..<nat count] ?s1) = rndCount ?s1 + 2 * nat count
       \<and> rnd (fold ?body [0..<nat count] ?s1) = rnd ?s1
       \<and> presetSize (fold ?body [0..<nat count] ?s1) = presetSize ?s1
       \<and> ranX (fold ?body [0..<nat count] ?s1)
           = map (\<lambda>i. if i < nat count then ?gx (presetSize ?s1) (rnd ?s1 (rndCount ?s1 + 2 * i)) else ranX ?s1 ! i)
               [0..<length (ranX ?s1)]
       \<and> ranY (fold ?body [0..<nat count] ?s1)
           = map (\<lambda>i. if i < nat count then ?gy (presetSize ?s1) (rnd ?s1 (rndCount ?s1 + 2 * i + 1)) else ranY ?s1 ! i)
               [0..<length (ranY ?s1)]"
    by (rule refresh_fold [where body = ?body and gx = ?gx and gy = ?gy]) (simp_all add: Let_def split_def Math_random_def)
  from F show "ranX (refresh_ran w h count s)
           = map (\<lambda>i. if i < nat count
                       then word_of_int \<lfloor>(300 - 2.7 * presetSize s) / 2
                              + rnd s (rndCount s + 2 * i) * (w - 2 * ((300 - 2.7 * presetSize s) / 2))\<rfloor>
                       else ranX s ! i) [0..<length (ranX s)]"
    unfolding run by simp
  from F show "ranY (refresh_ran w h count s)
           = map (\<lambda>i. if i < nat count
                       then word_of_int \<lfloor>(300 - 2.7 * presetSize s) / 2
                              + rnd s (rndCount s + 2 * i + 1) * (h - 2 * ((300 - 2.7 * presetSize s) / 2))\<rfloor>
                       else ranY s ! i) [0..<length (ranY s)]"
    unfolding run by simp
qed

lemma cases_timeRand:
  "timeRand (case3 cx cy sz tx ty s) =
     (if clock s (clockCount s) - timeRand s \<ge> rand_interval 10 (presetSpeed s)
      then clock s (Suc (clockCount s)) else timeRand s)"
  "timeRand (case4 cx cy sz tx ty s) =
     (if clock s (clockCount s) - timeRand s \<ge> rand_interval 10 (presetSpeed s)
      then clock s (Suc (clockCount s)) else timeRand s)"
  "timeRand (case9 cx cy sz tx ty s) =
     (if clock s (clockCount s) - timeRand s \<ge> rand_interval 9.5 (presetSpeed s)
      then clock s (Suc (clockCount s)) else timeRand s)"
  "timeRand (case10 cx cy sz tx ty s) =
     (if clock s (clockCount s) - timeRand s \<ge> rand_interval 9.5 (presetSpeed s)
      then clock s (Suc (clockCount s)) else timeRand s)"
  by (simp_all add: case3_def case4_def case9_def case10_def exec refresh_ran_timeRand)

lemma cases_presetSpeed:
  "presetSpeed (case3 cx cy sz tx ty s) = presetSpeed s"
  "presetSpeed (case4 cx cy sz tx ty s) = presetSpeed s"
  "presetSpeed (case9 cx cy sz tx ty s) = presetSpeed s"
  "presetSpeed (case10 cx cy sz tx ty s) = presetSpeed s"
  by (simp_all add: case3_def case4_def case9_def case10_def exec refresh_ran_presetSpeed)

lemma cases_clock:
  "clock (case3 cx cy sz tx ty s) = clock s"
  "clock (case4 cx cy sz tx ty s) = clock s"
  "clock (case9 cx cy sz tx ty s) = clock s"
  "clock (case10 cx cy sz tx ty s) = clock s"
  by (simp_all add: case3_def case4_def case9_def case10_def exec refresh_ran_clock)

lemma case3_var_a:
  "var_a (case3 cx cy sz tx ty s) =
     (if clock s (clockCount s) - timeRand s \<ge> rand_interval 10 (presetSpeed s)
      then real_of_int \<lfloor>50 + rnd s (rndCount s) * (visualW s / DPR s - 100)\<rfloor> else var_a s)"
  by (simp add: case3_def exec)

lemma refresh_ran_endpoints:
  "endpoints (refresh_ran (visualW s / DPR s) (H s / DPR s) \<lfloor>(presetSize s + 10) / 10\<rfloor> s) =
     (if clock s (clockCount s) - timeRand s \<ge> rand_interval 9.5 (presetSpeed s)
      then (var_a s, var_b s, var_c s, var_d s,
            map (\<lambda>i. if i < nat \<lfloor>(presetSize s + 10) / 10\<rfloor>
                     then word_of_int \<lfloor>(300 - 2.7 * presetSize s) / 2
                            + rnd s (rndCount s + 2 * i)
                              * (visualW s / DPR s - 2 * ((300 - 2.7 * presetSize s) / 2))\<rfloor>
                     else ranX s ! i) [0..<length (ranX s)],
            map (\<lambda>i. if i < nat \<lfloor>(presetSize s + 10) / 10\<rfloor>
                     then word_of_int \<lfloor>(300 - 2.7 * presetSize s) / 2
                            + rnd s (rndCount s + 2 * i + 1)
                              * (H s / DPR s - 2 * ((300 - 2.7 * presetSize s) / 2))\<rfloor>
                     else ranY s ! i) [0..<length (ranY s)])
      else endpoints s)"
proof (cases "clock s (clockCount s) - timeRand s \<ge> rand_interval 9.5 (presetSpeed s)")
  case True
  then show ?thesis
    unfolding endpoints_def refresh_ran_abcd
    using refresh_ran_due [OF True] by simp
next
  case False
  then have "clock s (clockCount s) - timeRand s < rand_interval 9.5 (presetSpeed s)" by simp
  from refresh_ran_skip [OF this] False show ?thesis
    by (simp add: endpoints_def)
qed

lemma refresh_ran_endpoints_ctx:
  "endpoints (refresh_ran (visualW s / DPR s) (H s / DPR s) \<lfloor>(presetSize s + 10) / 10\<rfloor> (s\<lparr>ctx := c\<rparr>)) =
     (if refresh_due 9 s then refreshed_endpoints 9 s else endpoints s)"
  using refresh_ran_endpoints [of "s\<lparr>ctx := c\<rparr>"]
  by (simp add: refresh_due_def refreshed_endpoints_def endpoints_def Let_def add.assoc)

lemma case3_endpoints:
  "endpoints (case3 cx cy sz tx ty s) =
     (if refresh_due 3 s then refreshed_endpoints 3 s else endpoints s)"
  by (simp add: case3_def exec endpoints_def refresh_due_def refreshed_endpoints_def
        numeral_3_eq_3)

lemma case4_endpoints:
  "endpoints (case4 cx cy sz tx ty s) =
     (if refresh_due 4 s then refreshed_endpoints 4 s else endpoints s)"
  by (simp add: case4_def exec endpoints_def refresh_due_def refreshed_endpoints_def)

lemma case9_endpoints:
  "endpoints (case9 cx cy sz tx ty s) =
     (if refresh_due 9 s then refreshed_endpoints 9 s else endpoints s)"
  by (simp add: case9_def draw_p Let_def refresh_ran_endpoints_ctx)

lemma case10_endpoints:
  "endpoints (case10 cx cy sz tx ty s) =
     (if refresh_due 10 s then refreshed_endpoints 10 s else endpoints s)"
  by (simp add: case10_def draw_p Let_def refresh_ran_endpoints_ctx refresh_due_def
        refreshed_endpoints_def)

lemma random_frame_timeRand:
  assumes "idx = 3 \<or> idx = 4 \<or> idx = 9 \<or> idx = 10" "onoff s"
  shows "timeRand (drawPreset idx fts motion s) =
     (if refresh_due idx s then clock s (Suc (clockCount s)) else timeRand s)"
proof -
  consider "idx = 3" | "idx = 4" | "idx = 9" | "idx = 10" using assms(1) by blast
  then show ?thesis
  proof cases
    case 1
    then show ?thesis
      using assms(2) by (simp add: drawPreset_def Let_def cases_timeRand refresh_due_def)
  next
    case 2
    then show ?thesis
      using assms(2) by (simp add: drawPreset_def Let_def cases_timeRand refresh_due_def)
  next
    case 3
    then show ?thesis
      using assms(2) by (simp add: drawPreset_def Let_def cases_timeRand refresh_due_def)
  next
    case 4
    then show ?thesis
      using assms(2) by (simp add: drawPreset_def Let_def cases_timeRand refresh_due_def)
  qed
qed

lemma random_frame_endpoints:
  assumes "idx = 3 \<or> idx = 4 \<or> idx = 9 \<or> idx = 10" "onoff s"
  shows "endpoints (drawPreset idx fts motion s) =
     (if refresh_due idx s then refreshed_endpoints idx s else endpoints s)"
proof -
  consider "idx = 3" | "idx = 4" | "idx = 9" | "idx = 10" using assms(1) by blast
  then show ?thesis
  proof cases
    case 1
    then show ?thesis using assms(2) by (simp add: drawPreset_def Let_def case3_endpoints)
  next
    case 2
    then show ?thesis using assms(2) by (simp add: drawPreset_def Let_def case4_endpoints)
  next
    case 3
    then show ?thesis using assms(2) by (simp add: drawPreset_def Let_def case9_endpoints)
  next
    case 4
    then show ?thesis using assms(2) by (simp add: drawPreset_def Let_def case10_endpoints)
  qed
qed

lemma random_frame_skip:
  assumes idx: "idx = 3 \<or> idx = 4 \<or> idx = 9 \<or> idx = 10"
    and sp: "presetSpeed s = 0"
    and t: "clock s (clockCount s) - timeRand s < 1000000000"
  shows "presetSpeed (drawPreset idx fts motion s) = presetSpeed s
       \<and> clock (drawPreset idx fts motion s) = clock s
       \<and> timeRand (drawPreset idx fts motion s) = timeRand s
       \<and> endpoints (drawPreset idx fts motion s) = endpoints s"
proof (cases "onoff s")
  case False
  then have "drawPreset idx fts motion s = s" by (simp add: drawPreset_def Let_def)
  then show ?thesis by simp
next
  case True
  have nd: "\<not> refresh_due idx s"
    using sp t by (simp add: refresh_due_def rand_interval_def)
  have e: "endpoints (drawPreset idx fts motion s) = endpoints s"
    using random_frame_endpoints [OF idx True, of fts motion] nd by simp
  have tr: "timeRand (drawPreset idx fts motion s) = timeRand s"
    using random_frame_timeRand [OF idx True, of fts motion] nd by simp
  consider "idx = 3" | "idx = 4" | "idx = 9" | "idx = 10" using idx by blast
  then have "presetSpeed (drawPreset idx fts motion s) = presetSpeed s
       \<and> clock (drawPreset idx fts motion s) = clock s"
  proof cases
    case 1
    then show ?thesis
      using True by (simp add: drawPreset_def Let_def cases_presetSpeed cases_clock)
  next
    case 2
    then show ?thesis
      using True by (simp add: drawPreset_def Let_def cases_presetSpeed cases_clock)
  next
    case 3
    then show ?thesis
      using True by (simp add: drawPreset_def Let_def cases_presetSpeed cases_clock)
  next
    case 4
    then show ?thesis
      using True by (simp add: drawPreset_def Let_def cases_presetSpeed cases_clock)
  qed
  with e tr show ?thesis by simp
qed

lemma frames_frozen:
  assumes idx: "idx = 3 \<or> idx = 4 \<or> idx = 9 \<or> idx = 10"
  shows "presetSpeed s = 0 \<Longrightarrow> \<forall>n. clock s n - timeRand s < 1000000000 \<Longrightarrow>
         endpoints (frames idx inputs s) = endpoints s"
proof (induction inputs arbitrary: s)
  case Nil
  then show ?case by simp
next
  case (Cons x inputs)
  obtain fts motion where x: "x = (fts, motion)" by (cases x)
  let ?s' = "drawPreset idx fts motion s"
  from Cons.prems(2) have "clock s (clockCount s) - timeRand s < 1000000000" by blast
  from random_frame_skip [OF idx Cons.prems(1) this, of fts motion]
  have sp': "presetSpeed ?s' = 0" and ck': "clock ?s' = clock s"
    and tr': "timeRand ?s' = timeRand s" and ep': "endpoints ?s' = endpoints s"
    using Cons.prems(1) by simp_all
  have "endpoints (frames idx inputs ?s') = endpoints ?s'"
    using Cons.prems(2) by (intro Cons.IH sp') (simp add: ck' tr')
  then show ?case by (simp add: x ep')
qed

lemma example_fields:
  "onoff example_state" "presetSpeed example_state = 30" "presetSize example_state = 50"
  "visualW example_state = 1280" "H example_state = 720" "DPR example_state = 1"
  "timeRand example_state = 0" "clockCount example_state = 0" "rndCount example_state = 0"
  "rnd example_state = (\<lambda>n. 0.5)" "clock example_state = (\<lambda>n. 0)"
  "var_a example_state = 0" "var_b example_state = 0" "var_c example_state = 0"
  "var_d example_state = 0" "var_m example_state = 0" "var_v example_state = 0.2"
  "ranX example_state = replicate 1000 0" "ranY example_state = replicate 1000 0"
  by (simp_all add: example_state_def)

text \<open>
  C6, as the code has it. The refresh interval is \<open>1000 - k * speed\<close> (\<open>k\<close> = 10 for
  presets 3 and 4, 9.5 for presets 9 and 10) and, at speed 0, the finite value \<open>10\<^sup>9\<close>
  milliseconds. A drawn frame of one of these presets, at any speed, refreshes exactly
  when the clock reading minus \<open>timeRand\<close> has reached that interval (\<open>refresh_due\<close>):
  then it stamps \<open>timeRand\<close> with the next clock reading and the endpoints are the fresh
  random values (\<open>refreshed_endpoints\<close>); otherwise \<open>timeRand\<close> and the endpoints \<open>a\<close>,
  \<open>b_\<close>, \<open>c\<close>, \<open>d\<close>, \<open>ranX\<close>, \<open>ranY\<close> are what they were. So at speed 0 the endpoints stay
  the same over any run of frames (1000 or more) during which the clock stays below
  \<open>timeRand + 10\<^sup>9\<close>.
\<close>

theorem random_endpoints_frozen_below_interval:
  assumes "idx = 3 \<or> idx = 4 \<or> idx = 9 \<or> idx = 10"
  shows "rand_interval k 0 = 1000000000
    \<and> (speed \<noteq> 0 \<longrightarrow> rand_interval k speed = 1000 - k * speed)
    \<and> (onoff s \<longrightarrow>
         timeRand (drawPreset idx fts motion s) =
           (if refresh_due idx s then clock s (Suc (clockCount s)) else timeRand s)
         \<and> endpoints (drawPreset idx fts motion s) =
           (if refresh_due idx s then refreshed_endpoints idx s else endpoints s))
    \<and> (presetSpeed s = 0 \<and> (\<forall>n. clock s n - timeRand s < 1000000000) \<longrightarrow>
         endpoints (frames idx inputs s) = endpoints s)"
  using random_frame_timeRand [OF assms] random_frame_endpoints [OF assms] frames_frozen [OF assms]
  by (simp add: rand_interval_def)

text \<open>
  The theorem at four inputs. At speed 0 with the clock at 0, two frames of preset 3
  leave the endpoints alone. At speed 30 the interval of preset 3 is 700 ms: with the
  clock at 0 a frame is not due and leaves the endpoints alone; with the clock at 800 it
  is due, stamps \<open>timeRand\<close> with 800 and, \<open>Math.random()\<close> returning 0.5, stores the
  centre \<open>(640, 360)\<close> in both endpoints. Preset 9 with the clock at 800 (interval 715 ms,
  size 50, hence 6 circles) stores 640 in \<open>ranX[5]\<close> and leaves \<open>ranX[6]\<close> at 0.
\<close>

theorem random_endpoints_frozen_below_interval_witness:
  "rand_interval 10 30 = 700
   \<and> timeRand (drawPreset 3 no_feats (0, 0) (example_state\<lparr>presetSpeed := 0\<rparr>)) = 0
   \<and> endpoints (frames 3 [(no_feats, (0, 0)), (no_feats, (0, 0))] (example_state\<lparr>presetSpeed := 0\<rparr>))
       = endpoints (example_state\<lparr>presetSpeed := 0\<rparr>)
   \<and> \<not> refresh_due 3 example_state
   \<and> endpoints (drawPreset 3 no_feats (0, 0) example_state) = endpoints example_state
   \<and> refresh_due 3 (example_state\<lparr>clock := (\<lambda>n. 800)\<rparr>)
   \<and> timeRand (drawPreset 3 no_feats (0, 0) (example_state\<lparr>clock := (\<lambda>n. 800)\<rparr>)) = 800
   \<and> endpoints (drawPreset 3 no_feats (0, 0) (example_state\<lparr>clock := (\<lambda>n. 800)\<rparr>))
       = (640, 360, 640, 360, replicate 1000 0, replicate 1000 0)
   \<and> refresh_due 9 (example_state\<lparr>clock := (\<lambda>n. 800)\<rparr>)
   \<and> ranX (drawPreset 9 no_feats (0, 0) (example_state\<lparr>clock := (\<lambda>n. 800)\<rparr>)) ! 5 = 640
   \<and> ranX (drawPreset 9 no_feats (0, 0) (example_state\<lparr>clock := (\<lambda>n. 800)\<rparr>)) ! 6 = 0
   \<and> ranY (drawPreset 9 no_feats (0, 0) (example_state\<lparr>clock := (\<lambda>n. 800)\<rparr>)) ! 5 = 360"
  using random_endpoints_frozen_below_interval
    [of 3 10 30 "example_state\<lparr>presetSpeed := 0\<rparr>" no_feats "(0, 0)"
        "[(no_feats, (0, 0)), (no_feats, (0, 0))]"]
    random_endpoints_frozen_below_interval [of 3 10 30 example_state no_feats "(0, 0)" "[]"]
    random_endpoints_frozen_below_interval
      [of 3 10 30 "example_state\<lparr>clock := (\<lambda>n. 800)\<rparr>" no_feats "(0, 0)" "[]"]
    random_endpoints_frozen_below_interval
      [of 9 10 30 "example_state\<lparr>clock := (\<lambda>n. 800)\<rparr>" no_feats "(0, 0)" "[]"]
  by (simp add: example_fields rand_interval_def refresh_due_def refreshed_endpoints_def
        endpoints_def Let_def)

text \<open>
  The claim of C6 as stated fails: the interval at speed 0 is \<open>10\<^sup>9\<close> ms, not infinite.
  With the speed at 0, \<open>timeRand\<close> at 0 and the clock at \<open>10\<^sup>9\<close> ms (the page open for
  about eleven and a half days), one frame of preset 3 moves the endpoint \<open>a\<close> from 0 to
  640.
\<close>

theorem random_endpoints_not_frozen_forever:
  "presetSpeed (example_state\<lparr>presetSpeed := 0, clock := (\<lambda>n. 1000000000)\<rparr>) = 0
   \<and> var_a (example_state\<lparr>presetSpeed := 0, clock := (\<lambda>n. 1000000000)\<rparr>) = 0
   \<and> var_a (drawPreset 3 no_feats (0, 0) (example_state\<lparr>presetSpeed := 0, clock := (\<lambda>n. 1000000000)\<rparr>)) = 640
   \<and> endpoints (frames 3 [(no_feats, (0, 0))] (example_state\<lparr>presetSpeed := 0, clock := (\<lambda>n. 1000000000)\<rparr>))
       \<noteq> endpoints (example_state\<lparr>presetSpeed := 0, clock := (\<lambda>n. 1000000000)\<rparr>)"
proof -
  let ?s = "example_state\<lparr>presetSpeed := 0, clock := (\<lambda>n. 1000000000)\<rparr>"
  have due: "clock ?s (clockCount ?s) - timeRand ?s \<ge> rand_interval 10 (presetSpeed ?s)"
    by (simp add: example_state_def rand_interval_def)
  have on: "onoff ?s" by (simp add: example_state_def)
  have "var_a (drawPreset 3 no_feats (0, 0) ?s)
        = real_of_int \<lfloor>50 + rnd ?s (rndCount ?s) * (visualW ?s / DPR ?s - 100)\<rfloor>"
    using on due by (simp add: drawPreset_def Let_def case3_var_a)
  also have "\<dots> = 640" by (simp add: example_state_def)
  finally have a: "var_a (drawPreset 3 no_feats (0, 0) ?s) = 640" .
  have a0: "var_a ?s = 0" by (simp add: example_state_def)
  show ?thesis
    using a a0 by (simp add: endpoints_def)
qed

section \<open>Switching presets and the shared accumulators\<close>













section \<open>Switching the motion path\<close>

lemma jsmod_unit:
  "0 \<le> jsmod (jsmod phase 1 + 1) 1 \<and> jsmod (jsmod phase 1 + 1) 1 < 1"
proof -
  have y: "0 < jsmod phase 1 + 1"
    by (simp add: jsmod_def) linarith
  then show ?thesis
    by (simp add: jsmod_def [of "jsmod phase 1 + 1"]) linarith
qed

lemma motionPos_segments:
  "0 \<le> \<lfloor>jsmod (jsmod phase 1 + 1) 1 * 4\<rfloor>
   \<and> nat (\<lfloor>jsmod (jsmod phase 1 + 1) 1 * 4\<rfloor> + 1) < length (square_path r)
   \<and> 0 \<le> \<lfloor>jsmod (jsmod phase 1 + 1) 1 * 3\<rfloor>
   \<and> nat (\<lfloor>jsmod (jsmod phase 1 + 1) 1 * 3\<rfloor> + 1) < length (triangle_path r)"
proof -
  let ?t = "jsmod (jsmod phase 1 + 1) 1"
  from jsmod_unit [of phase] have t: "0 \<le> ?t" "?t < 1" by simp_all
  have a4: "\<lfloor>?t * 4\<rfloor> < 4" using t by (simp add: floor_less_iff)
  have a3: "\<lfloor>?t * 3\<rfloor> < 3" using t by (simp add: floor_less_iff)
  have c4: "0 \<le> \<lfloor>?t * 4\<rfloor>" and c3: "0 \<le> \<lfloor>?t * 3\<rfloor>" using t by simp_all
  have s4: "nat (\<lfloor>?t * 4\<rfloor> + 1) < 5" using a4 c4 by linarith
  have s3: "nat (\<lfloor>?t * 3\<rfloor> + 1) < 4" using a3 c3 by linarith
  have "length (square_path r) = 5" "length (triangle_path r) = 4"
    by (simp_all add: square_path_def triangle_path_def)
  with s4 s3 c4 c3 show ?thesis by presburger
qed

lemma blend_duration_pos: "0 < motionBlendDurationSec s"
proof -
  have "clamp (transitionSpeed s / 100) 0 1 \<le> (1 :: real)"
    by (simp add: clamp_def)
  then show ?thesis
    by (simp add: motionBlendDurationSec_def lerp_def)
qed

lemma setMotionMode_same: "next = motionToMode s \<Longrightarrow> setMotionMode next s = s"
  by (simp add: setMotionMode_def)

lemma setMotionMode_fields:
  assumes "next \<noteq> motionToMode s"
  shows "motionFromMode (setMotionMode next s) = motionToMode s"
    and "motionToMode (setMotionMode next s) = next"
    and "motionBlendStart (setMotionMode next s) = clock s (clockCount s)"
    and "motionBlending (setMotionMode next s)"
    and "motionPhase (setMotionMode next s) = motionPhase s"
    and "presetSpeed (setMotionMode next s) = presetSpeed s"
    and "transitionSpeed (setMotionMode next s) = transitionSpeed s"
    and "visualW (setMotionMode next s) = visualW s"
    and "H (setMotionMode next s) = H s"
    and "DPR (setMotionMode next s) = DPR s"
    and "clock (setMotionMode next s) = clock s"
    and "clockCount (setMotionMode next s) = Suc (clockCount s)"
  using assms by (simp_all add: setMotionMode_def nowMs_def Let_def split_def)

lemma cmo_offset:
  "fst (computeMotionOffset tNow dt s) =
     (lerp (fst (motionPos (motionFromMode s) (motion_phase_step dt s) (motion_radius s)))
           (fst (motionPos (motionToMode s) (motion_phase_step dt s) (motion_radius s)))
           (if motionBlending s then motion_blend tNow s else 1),
      lerp (snd (motionPos (motionFromMode s) (motion_phase_step dt s) (motion_radius s)))
           (snd (motionPos (motionToMode s) (motion_phase_step dt s) (motion_radius s)))
           (if motionBlending s then motion_blend tNow s else 1))"
  by (simp add: computeMotionOffset_def Let_def split_def motion_radius_def motion_blend_def
        motionBlendDurationSec_def)

lemma cmo_fields:
  "motionPhase (snd (computeMotionOffset tNow dt s)) = motion_phase_step dt s"
  "motionFromMode (snd (computeMotionOffset tNow dt s)) =
     (if motionBlending s \<and> motion_blend tNow s \<ge> 1 then motionToMode s else motionFromMode s)"
  "motionToMode (snd (computeMotionOffset tNow dt s)) = motionToMode s"
  "motionBlending (snd (computeMotionOffset tNow dt s)) =
     (motionBlending s \<and> \<not> motion_blend tNow s \<ge> 1)"
  "motionBlendStart (snd (computeMotionOffset tNow dt s)) = motionBlendStart s"
  "presetSpeed (snd (computeMotionOffset tNow dt s)) = presetSpeed s"
  "transitionSpeed (snd (computeMotionOffset tNow dt s)) = transitionSpeed s"
  "visualW (snd (computeMotionOffset tNow dt s)) = visualW s"
  "H (snd (computeMotionOffset tNow dt s)) = H s"
  "DPR (snd (computeMotionOffset tNow dt s)) = DPR s"
  "clock (snd (computeMotionOffset tNow dt s)) = clock s"
  "clockCount (snd (computeMotionOffset tNow dt s)) = clockCount s"
  by (simp_all add: computeMotionOffset_def Let_def split_def motion_blend_def
        motionBlendDurationSec_def)

lemma blend_at_start:
  assumes "tNow \<le> motionBlendStart s"
  shows "motion_blend tNow s = 0"
proof -
  have "(tNow - motionBlendStart s) / (motionBlendDurationSec s * 1000) \<le> 0"
    using assms blend_duration_pos [of s] by (simp add: divide_nonpos_pos)
  then have "clamp ((tNow - motionBlendStart s) / (motionBlendDurationSec s * 1000)) 0 1 = 0"
    by (simp add: clamp_def)
  then show ?thesis
    by (simp add: motion_blend_def Let_def easeInOutCubic_def)
qed

lemma lerp_ends: "lerp p q 0 = p" "lerp p q 1 = q"
  by (simp_all add: lerp_def)

lemma switch_offset:
  assumes "next \<noteq> motionToMode s"
  shows "fst (computeMotionOffset tNow dt (setMotionMode next s)) =
     (lerp (fst (motionPos (motionToMode s) (motion_phase_step dt s) (motion_radius s)))
           (fst (motionPos next (motion_phase_step dt s) (motion_radius s)))
           (easeInOutCubic (clamp ((tNow - clock s (clockCount s)) / (motionBlendDurationSec s * 1000)) 0 1)),
      lerp (snd (motionPos (motionToMode s) (motion_phase_step dt s) (motion_radius s)))
           (snd (motionPos next (motion_phase_step dt s) (motion_radius s)))
           (easeInOutCubic (clamp ((tNow - clock s (clockCount s)) / (motionBlendDurationSec s * 1000)) 0 1)))"
  using assms
  by (simp add: cmo_offset setMotionMode_fields motion_phase_step_def motion_radius_def
        motion_blend_def motionBlendDurationSec_def)

lemma idle_offset:
  assumes "\<not> motionBlending s"
  shows "fst (computeMotionOffset tNow dt s) =
     motionPos (motionToMode s) (motion_phase_step dt s) (motion_radius s)"
  using assms by (simp add: cmo_offset lerp_ends)

lemma switch_at_rest:
  assumes idle: "\<not> motionBlending s" and t: "tNow \<le> clock s (clockCount s)"
  shows "fst (computeMotionOffset tNow dt (setMotionMode next s)) = fst (computeMotionOffset tNow dt s)"
proof (cases "next = motionToMode s")
  case True
  then show ?thesis by (simp add: setMotionMode_same)
next
  case False
  have "tNow \<le> motionBlendStart (setMotionMode next s)"
    using t by (simp add: setMotionMode_fields [OF False])
  from blend_at_start [OF this]
  have "easeInOutCubic (clamp ((tNow - clock s (clockCount s)) / (motionBlendDurationSec s * 1000)) 0 1) = 0"
    by (simp add: motion_blend_def motionBlendDurationSec_def setMotionMode_fields [OF False])
  then show ?thesis
    by (simp add: switch_offset [OF False] idle_offset [OF idle] lerp_ends)
qed

text \<open>
  C9, as the code has it. \<open>setMotionMode(next)\<close> with \<open>next\<close> other than the current
  target makes the current target the new \<open>from\<close> mode, whether or not a blend is in
  progress, and restarts the blend at the clock reading; with the current target it does
  nothing. \<open>computeMotionOffset\<close> sets \<open>from\<close> to the target, and clears the blending
  flag, only in a frame whose eased blend factor has reached 1, and never changes the
  target. After a switch the offset
  is the interpolation between the path point of the previous target and the path point
  of \<open>next\<close>. Without a blend in progress the offset is the path point of the target,
  so a switch made then, and seen by a frame whose time is not after the clock reading of
  the switch, does not move the offset at all.
\<close>

theorem retarget_blends_from_previous_target:
  "(next = motionToMode s \<longrightarrow> setMotionMode next s = s)
   \<and> (next \<noteq> motionToMode s \<longrightarrow>
        motionFromMode (setMotionMode next s) = motionToMode s
        \<and> motionToMode (setMotionMode next s) = next
        \<and> motionBlendStart (setMotionMode next s) = clock s (clockCount s)
        \<and> motionBlending (setMotionMode next s)
        \<and> fst (computeMotionOffset tNow dt (setMotionMode next s)) =
            (lerp (fst (motionPos (motionToMode s) (motion_phase_step dt s) (motion_radius s)))
                  (fst (motionPos next (motion_phase_step dt s) (motion_radius s)))
                  (easeInOutCubic (clamp ((tNow - clock s (clockCount s))
                                          / (motionBlendDurationSec s * 1000)) 0 1)),
             lerp (snd (motionPos (motionToMode s) (motion_phase_step dt s) (motion_radius s)))
                  (snd (motionPos next (motion_phase_step dt s) (motion_radius s)))
                  (easeInOutCubic (clamp ((tNow - clock s (clockCount s))
                                          / (motionBlendDurationSec s * 1000)) 0 1))))
   \<and> motionFromMode (snd (computeMotionOffset tNow dt s)) =
        (if motionBlending s \<and> motion_blend tNow s \<ge> 1 then motionToMode s else motionFromMode s)
   \<and> motionToMode (snd (computeMotionOffset tNow dt s)) = motionToMode s
   \<and> motionBlending (snd (computeMotionOffset tNow dt s)) =
        (motionBlending s \<and> motion_blend tNow s < 1)
   \<and> (\<not> motionBlending s \<longrightarrow>
        fst (computeMotionOffset tNow dt s) =
          motionPos (motionToMode s) (motion_phase_step dt s) (motion_radius s))
   \<and> (\<not> motionBlending s \<and> tNow \<le> clock s (clockCount s) \<longrightarrow>
        fst (computeMotionOffset tNow dt (setMotionMode next s)) =
          fst (computeMotionOffset tNow dt s))"
proof (intro conjI impI)
  show "setMotionMode next s = s" if "next = motionToMode s"
    using that by (rule setMotionMode_same)
  show "motionFromMode (setMotionMode next s) = motionToMode s" if "next \<noteq> motionToMode s"
    using that by (rule setMotionMode_fields)
  show "motionToMode (setMotionMode next s) = next" if "next \<noteq> motionToMode s"
    using that by (rule setMotionMode_fields)
  show "motionBlendStart (setMotionMode next s) = clock s (clockCount s)" if "next \<noteq> motionToMode s"
    using that by (rule setMotionMode_fields)
  show "motionBlending (setMotionMode next s)" if "next \<noteq> motionToMode s"
    using that by (rule setMotionMode_fields)
  show "fst (computeMotionOffset tNow dt (setMotionMode next s)) =
            (lerp (fst (motionPos (motionToMode s) (motion_phase_step dt s) (motion_radius s)))
                  (fst (motionPos next (motion_phase_step dt s) (motion_radius s)))
                  (easeInOutCubic (clamp ((tNow - clock s (clockCount s))
                                          / (motionBlendDurationSec s * 1000)) 0 1)),
             lerp (snd (motionPos (motionToMode s) (motion_phase_step dt s) (motion_radius s)))
                  (snd (motionPos next (motion_phase_step dt s) (motion_radius s)))
                  (easeInOutCubic (clamp ((tNow - clock s (clockCount s))
                                          / (motionBlendDurationSec s * 1000)) 0 1)))"
    if "next \<noteq> motionToMode s"
    using that by (rule switch_offset)
  show "motionFromMode (snd (computeMotionOffset tNow dt s)) =
        (if motionBlending s \<and> motion_blend tNow s \<ge> 1 then motionToMode s else motionFromMode s)"
    by (rule cmo_fields)
  show "motionToMode (snd (computeMotionOffset tNow dt s)) = motionToMode s"
    by (rule cmo_fields)
  show "motionBlending (snd (computeMotionOffset tNow dt s)) =
        (motionBlending s \<and> motion_blend tNow s < 1)"
    by (simp add: cmo_fields not_le)
  show "fst (computeMotionOffset tNow dt s) =
          motionPos (motionToMode s) (motion_phase_step dt s) (motion_radius s)"
    if "\<not> motionBlending s"
    using that by (rule idle_offset)
  show "fst (computeMotionOffset tNow dt (setMotionMode next s)) =
          fst (computeMotionOffset tNow dt s)"
    if "\<not> motionBlending s \<and> tNow \<le> clock s (clockCount s)"
    using that by (intro switch_at_rest) simp_all
qed

lemmas motion_eval =
  motion_blend_def motionBlendDurationSec_def motion_phase_step_def motion_radius_def
  motionPos_def jsmod_def easeInOutCubic_def lerp_def clamp_def square_path_def
  triangle_path_def Let_def

text \<open>
  The theorem at the start-up state with the speed at 0 (the phase stays 0) and the
  clock at 0. The blend lasts 865 ms. A switch from \<open>'off'\<close> to \<open>'square'\<close>, with radius
  129.6, leaves the offset at (0, 0) in a frame at time 0; half-way through the eased
  blend, at 432.5 ms, the offset is (64.8, -64.8) and \<open>from\<close> is still \<open>'off'\<close>; at
  900 ms the blend is over and \<open>from\<close> is \<open>'square'\<close>. Selecting \<open>'off'\<close> again at start-up
  changes nothing.
\<close>

theorem retarget_blends_from_previous_target_witness:
  "''square'' \<noteq> motionToMode (example_state\<lparr>presetSpeed := 0\<rparr>)
   \<and> \<not> motionBlending (example_state\<lparr>presetSpeed := 0\<rparr>)
   \<and> motionFromMode (setMotionMode ''square'' (example_state\<lparr>presetSpeed := 0\<rparr>)) = ''off''
   \<and> motionBlending (setMotionMode ''square'' (example_state\<lparr>presetSpeed := 0\<rparr>))
   \<and> fst (computeMotionOffset 0 (2 / 125) (example_state\<lparr>presetSpeed := 0\<rparr>)) = (0, 0)
   \<and> fst (computeMotionOffset 0 (2 / 125) (setMotionMode ''square'' (example_state\<lparr>presetSpeed := 0\<rparr>)))
       = (0, 0)
   \<and> fst (computeMotionOffset (865 / 2) (2 / 125) (setMotionMode ''square'' (example_state\<lparr>presetSpeed := 0\<rparr>)))
       = (324 / 5, - (324 / 5))
   \<and> motionFromMode (snd (computeMotionOffset (865 / 2) (2 / 125)
        (setMotionMode ''square'' (example_state\<lparr>presetSpeed := 0\<rparr>)))) = ''off''
   \<and> motionFromMode (snd (computeMotionOffset 900 (2 / 125)
        (setMotionMode ''square'' (example_state\<lparr>presetSpeed := 0\<rparr>)))) = ''square''
   \<and> setMotionMode ''off'' (example_state\<lparr>presetSpeed := 0\<rparr>) = example_state\<lparr>presetSpeed := 0\<rparr>"
proof -
  let ?s = "example_state\<lparr>presetSpeed := 0\<rparr>"
  let ?s' = "setMotionMode ''square'' ?s"
  have ne: "''square'' \<noteq> motionToMode ?s" and idle: "\<not> motionBlending ?s"
    and ck: "(0 :: real) \<le> clock ?s (clockCount ?s)" and off: "''off'' = motionToMode ?s"
    by (simp_all add: example_state_def)
  note at_0 = retarget_blends_from_previous_target [of "''square''" ?s 0 "2 / 125"]
  note at_half = retarget_blends_from_previous_target [of "''square''" ?s "865 / 2" "2 / 125"]
  note again = retarget_blends_from_previous_target [of "''off''" ?s 0 "2 / 125"]
  note frame_half = retarget_blends_from_previous_target [of "''square''" ?s' "865 / 2" "2 / 125"]
  note frame_late = retarget_blends_from_previous_target [of "''square''" ?s' 900 "2 / 125"]
  have s': "motionFromMode ?s' = ''off''" "motionToMode ?s' = ''square''" "motionBlending ?s'"
    "motionBlendStart ?s' = 0"
    using at_0 ne by (simp_all add: example_state_def)
  have tr: "transitionSpeed ?s' = 55"
    by (simp add: setMotionMode_fields [OF ne]) (simp add: example_state_def)
  have o0: "fst (computeMotionOffset 0 (2 / 125) ?s) = (0, 0)"
    using at_0 idle by (simp add: motion_eval example_state_def)
  have o1: "fst (computeMotionOffset 0 (2 / 125) ?s') = fst (computeMotionOffset 0 (2 / 125) ?s)"
    using at_0 idle ck by blast
  have o2: "fst (computeMotionOffset (865 / 2) (2 / 125) ?s') = (324 / 5, - (324 / 5))"
    using at_half ne by (simp add: motion_eval example_state_def)
  have "motionFromMode (snd (computeMotionOffset (865 / 2) (2 / 125) ?s')) =
          (if motionBlending ?s' \<and> motion_blend (865 / 2) ?s' \<ge> 1 then motionToMode ?s'
           else motionFromMode ?s')"
    using frame_half by blast
  then have f1: "motionFromMode (snd (computeMotionOffset (865 / 2) (2 / 125) ?s')) = ''off''"
    by (simp add: s' tr motion_eval)
  have "motionFromMode (snd (computeMotionOffset 900 (2 / 125) ?s')) =
          (if motionBlending ?s' \<and> motion_blend 900 ?s' \<ge> 1 then motionToMode ?s'
           else motionFromMode ?s')"
    using frame_late by blast
  then have f2: "motionFromMode (snd (computeMotionOffset 900 (2 / 125) ?s')) = ''square''"
    by (simp add: s' tr motion_eval)
  have same: "setMotionMode ''off'' ?s = ?s"
    using again off by blast
  show ?thesis
    using ne idle s' o0 o1 o2 f1 f2 same by simp
qed

text \<open>
  The claim of C9 as stated fails: a switch made while a blend is in progress jumps.
  With the speed at 0, the blend slider at 0 (a blend of 1800 ms) and a blend from
  \<open>'off'\<close> to \<open>'square'\<close> started at time 0, the frame at 900 ms is half-way: the offset is
  (64.8, -64.8). The next frame, at 916 ms, moves its \<open>x\<close> to less than 69. If
  \<open>setMotionMode('triangle')\<close> is called in between, at 900 ms, the new \<open>from\<close> is
  \<open>'square'\<close>, whose path point is (129.6, -129.6), not the interpolated offset, and the
  frame at 916 ms returns an \<open>x\<close> above 129.
\<close>

theorem midblend_switch_jumps:
  "motionBlending (example_state\<lparr>presetSpeed := 0, transitionSpeed := 0, motionToMode := ''square'',
        motionBlending := True, clock := (\<lambda>n. 900)\<rparr>)
   \<and> motion_blend 900 (example_state\<lparr>presetSpeed := 0, transitionSpeed := 0, motionToMode := ''square'',
        motionBlending := True, clock := (\<lambda>n. 900)\<rparr>) = 1 / 2
   \<and> fst (computeMotionOffset 900 (2 / 125)
        (example_state\<lparr>presetSpeed := 0, transitionSpeed := 0, motionToMode := ''square'',
           motionBlending := True, clock := (\<lambda>n. 900)\<rparr>)) = (324 / 5, - (324 / 5))
   \<and> motionFromMode (setMotionMode ''triangle'' (snd (computeMotionOffset 900 (2 / 125)
        (example_state\<lparr>presetSpeed := 0, transitionSpeed := 0, motionToMode := ''square'',
           motionBlending := True, clock := (\<lambda>n. 900)\<rparr>)))) = ''square''
   \<and> fst (fst (computeMotionOffset 916 (2 / 125) (snd (computeMotionOffset 900 (2 / 125)
        (example_state\<lparr>presetSpeed := 0, transitionSpeed := 0, motionToMode := ''square'',
           motionBlending := True, clock := (\<lambda>n. 900)\<rparr>))))) < 69
   \<and> fst (fst (computeMotionOffset 916 (2 / 125) (setMotionMode ''triangle'' (snd (computeMotionOffset 900 (2 / 125)
        (example_state\<lparr>presetSpeed := 0, transitionSpeed := 0, motionToMode := ''square'',
           motionBlending := True, clock := (\<lambda>n. 900)\<rparr>)))))) > 129"
proof -
  let ?s = "example_state\<lparr>presetSpeed := 0, transitionSpeed := 0, motionToMode := ''square'',
        motionBlending := True, clock := (\<lambda>n. 900)\<rparr>"
  let ?s1 = "snd (computeMotionOffset 900 (2 / 125) ?s)"
  have b: "motion_blend 900 ?s = 1 / 2"
    by (simp add: motion_eval example_state_def)
  have o1: "fst (computeMotionOffset 900 (2 / 125) ?s) = (324 / 5, - (324 / 5))"
    by (simp add: cmo_offset motion_eval example_state_def)
  have f1: "motionToMode ?s1 = ''square''" "motionFromMode ?s1 = ''off''" "motionBlending ?s1"
    "motionPhase ?s1 = 0" "motionBlendStart ?s1 = 0" "presetSpeed ?s1 = 0" "transitionSpeed ?s1 = 0"
    "visualW ?s1 = 1280" "H ?s1 = 720" "DPR ?s1 = 1" "clock ?s1 = (\<lambda>n. 900)"
    by (simp_all add: cmo_fields b) (simp_all add: motion_eval example_state_def)
  have ne: "''triangle'' \<noteq> motionToMode ?s1" by (simp add: f1)
  have fr: "motionFromMode (setMotionMode ''triangle'' ?s1) = ''square''"
    by (simp add: setMotionMode_fields [OF ne] f1)
  have no: "fst (fst (computeMotionOffset 916 (2 / 125) ?s1)) < 69"
    by (simp add: cmo_offset f1 motion_eval power3_eq_cube)
  have sw: "fst (fst (computeMotionOffset 916 (2 / 125) (setMotionMode ''triangle'' ?s1))) > 129"
    by (simp add: switch_offset [OF ne] f1 motion_eval power3_eq_cube)
  show ?thesis
    using b o1 fr no sw by (simp add: example_state_def)
qed

end
